theory Spec2Isabelle
  imports Main "HOL-Library.Word"
begin

unbundle bit_operations_syntax

section \<open>Block encoding and identity layer (pkg/proto/block.go)\<close>

text \<open>
  A shallow embedding of \<^verbatim>\<open>pkg/proto/block.go\<close>. Go values are modelled as follows.
  \<^item> \<^verbatim>\<open>byte\<close>, \<^verbatim>\<open>uint32\<close>, \<^verbatim>\<open>uint64\<close>, \<^verbatim>\<open>int16\<close>, \<^verbatim>\<open>int64\<close> are words of that width
    (signed types are read with \<open>sint\<close>); Go's \<^verbatim>\<open>int\<close> is \<open>int\<close>: on the modelled paths
    it only holds lengths and values converted from \<^verbatim>\<open>uint32\<close>.
  \<^item> \<^verbatim>\<open>[]byte\<close> and the fixed-size arrays \<^verbatim>\<open>crypto.Signature\<close> (64 bytes),
    \<^verbatim>\<open>crypto.Digest\<close> and \<^verbatim>\<open>crypto.PublicKey\<close> (32 bytes) are byte lists; the array
    sizes appear as length conditions where a property depends on them. A nil slice is
    the empty list. The input of the binary decoders is a \<open>ByteSlice\<close>, a slice together
    with the part of its backing array between its length and its capacity, because a
    slice expression is checked against the capacity.
  \<^item> A struct is a record. The embedded \<^verbatim>\<open>NxtConsensus\<close> is a field of that name; the
    embedding of \<^verbatim>\<open>BlockHeader\<close> in \<^verbatim>\<open>Block\<close> is record extension.
  \<^item> A pointer that may be nil is an \<open>option\<close>.
  \<^item> The cryptographic primitives, the protobuf encoder, the generated codec of the
    block message, the converter from that message to a block, the Merkle tree and the
    transaction codec live outside this file of the repository; they are parameters,
    collected in the record \<open>Env\<close>, and a transaction is the table of the
    methods of the \<^verbatim>\<open>Transaction\<close> interface that this file calls.
  \<^item> Memory is unbounded: \<^verbatim>\<open>make\<close> and the writes to a buffer always succeed.
\<close>

subsection \<open>Basic types and constants\<close>

type_synonym byte = "8 word"
type_synonym bytes = "byte list"
type_synonym uint32 = "32 word"
type_synonym uint64 = "64 word"
type_synonym int16 = "16 word"
type_synonym int32 = "32 word"
type_synonym int64 = "64 word"

type_synonym BlockVersion = byte
type_synonym Scheme = byte
type_synonym Signature = bytes
type_synonym Digest = bytes
type_synonym PublicKey = bytes

definition GenesisBlockVersion :: BlockVersion where "GenesisBlockVersion = 1"
definition PlainBlockVersion :: BlockVersion where "PlainBlockVersion = 2"
definition NgBlockVersion :: BlockVersion where "NgBlockVersion = 3"
definition RewardBlockVersion :: BlockVersion where "RewardBlockVersion = 4"
definition ProtobufBlockVersion :: BlockVersion where "ProtobufBlockVersion = 5"

definition SignatureSize :: nat where "SignatureSize = 64"
definition DigestSize :: nat where "DigestSize = 32"
definition PublicKeySize :: nat where "PublicKeySize = 32"

text \<open>The zero values \<^verbatim>\<open>crypto.Signature{}\<close> and \<^verbatim>\<open>crypto.Digest{}\<close>.\<close>

definition zeroSignature :: Signature where "zeroSignature = replicate SignatureSize 0"
definition zeroDigest :: Digest where "zeroDigest = replicate DigestSize 0"

text \<open>
  Errors are values. \<open>Join\<close> is \<^verbatim>\<open>errors.Join\<close> of two errors, \<open>Wrap\<close> is
  \<^verbatim>\<open>errors.Wrap\<close>, \<open>ErrorNew\<close> is \<^verbatim>\<open>errors.New\<close> with its message, \<open>Errorf\<close> is
  \<^verbatim>\<open>errors.Errorf\<close> with its format and the numbers formatted into it, and
  \<open>ErrExternal\<close> stands for an error value produced by a collaborator outside this file.
\<close>

datatype error =
    ErrInvalidBlockIDDataSize
  | EOF
  | ErrUnexpectedEOF
  | ErrorNew string
  | Errorf string "nat list"
  | Join error error
  | Wrap error string
  | ErrExternal nat

record NxtConsensus =
  BaseTarget :: uint64
  GenSignature :: bytes


subsection \<open>BlockID\<close>

type_synonym BlockIDType = byte

definition SignatureID :: BlockIDType where "SignatureID = 1"
definition DigestID :: BlockIDType where "DigestID = 2"

record BlockID =
  sig :: Signature
  dig :: Digest
  idType :: BlockIDType

text \<open>The zero value \<^verbatim>\<open>BlockID{}\<close>: an uninitialized identifier.\<close>

definition emptyBlockID :: BlockID where
  "emptyBlockID = \<lparr>sig = zeroSignature, dig = zeroDigest, idType = 0\<rparr>"

definition NewBlockIDFromSignature :: "Signature \<Rightarrow> BlockID" where
  "NewBlockIDFromSignature s = \<lparr>sig = s, dig = zeroDigest, idType = SignatureID\<rparr>"

definition NewBlockIDFromDigest :: "Digest \<Rightarrow> BlockID" where
  "NewBlockIDFromDigest d = \<lparr>sig = zeroSignature, dig = d, idType = DigestID\<rparr>"

text \<open>
  \<^verbatim>\<open>NewBlockIDFromBytes\<close>. The calls \<^verbatim>\<open>crypto.NewSignatureFromBytes\<close> and
  \<^verbatim>\<open>crypto.NewDigestFromBytes\<close> are made with data of exactly the array's size, where
  they copy the bytes into the array.
\<close>

definition NewBlockIDFromBytes :: "bytes \<Rightarrow> error + BlockID" where
  "NewBlockIDFromBytes data =
     (if length data = SignatureSize then
        Inr (emptyBlockID\<lparr>sig := data, idType := SignatureID\<rparr>)
      else if length data = DigestSize then
        Inr (emptyBlockID\<lparr>dig := data, idType := DigestID\<rparr>)
      else Inl ErrInvalidBlockIDDataSize)"

definition IsValid :: "BlockID \<Rightarrow> BlockVersion \<Rightarrow> bool" where
  "IsValid bid version =
     (if version \<ge> ProtobufBlockVersion then idType bid = DigestID
      else idType bid = SignatureID)"

definition Bytes :: "BlockID \<Rightarrow> bytes" where
  "Bytes bid =
     (if idType bid = SignatureID then sig bid
      else if idType bid = DigestID then dig bid
      else [])"

text \<open>The builtin \<^verbatim>\<open>copy(dst, src)\<close>, as the destination after the call.\<close>

definition go_copy :: "'a list \<Rightarrow> 'a list \<Rightarrow> 'a list" where
  "go_copy dst src = take (length dst) src @ drop (length src) dst"


subsection \<open>Streaming read of a BlockID\<close>

text \<open>
  An \<^verbatim>\<open>io.Reader\<close> is the bytes it still delivers and the error it reports once they are
  used up: \<open>EOF\<close> for a stream that ends, another error for a stream that breaks.
  \<open>ReadFull r buf\<close> is \<^verbatim>\<open>io.ReadFull\<close>: the count, the error, the buffer after the call
  and the reader after the call; \<open>shortReadError r\<close> is the error it returns when the
  reader holds fewer bytes than the buffer takes (\<^verbatim>\<open>io.EOF\<close> when no byte was read,
  \<^verbatim>\<open>io.ErrUnexpectedEOF\<close> when the stream ended after some, the reader's own error
  otherwise). \<open>errors_Is\<close> is \<^verbatim>\<open>errors.Is\<close>, and \<open>endOfStream err\<close> is the test
  \<^verbatim>\<open>errors.Is(err, io.ErrUnexpectedEOF) || errors.Is(err, io.EOF)\<close> that each reading
  function makes.
\<close>

record Reader =
  avail :: bytes
  failure :: error

fun errors_Is :: "error \<Rightarrow> error \<Rightarrow> bool" where
  "errors_Is (Join a b) target = (Join a b = target \<or> errors_Is a target \<or> errors_Is b target)"
| "errors_Is (Wrap a m) target = (Wrap a m = target \<or> errors_Is a target)"
| "errors_Is err target = (err = target)"

definition endOfStream :: "error \<Rightarrow> bool" where
  "endOfStream err = (errors_Is err ErrUnexpectedEOF \<or> errors_Is err EOF)"

definition shortReadError :: "Reader \<Rightarrow> error" where
  "shortReadError r =
     (if failure r = EOF then (if avail r = [] then EOF else ErrUnexpectedEOF)
      else failure r)"

definition ReadFull :: "Reader \<Rightarrow> bytes \<Rightarrow> int \<times> error option \<times> bytes \<times> Reader" where
  "ReadFull r buf =
     (if length buf \<le> length (avail r) then
        (int (length buf), None, take (length buf) (avail r),
         r\<lparr>avail := drop (length buf) (avail r)\<rparr>)
      else
        (int (length (avail r)),
         Some (shortReadError r),
         avail r @ drop (length (avail r)) buf,
         r\<lparr>avail := []\<rparr>))"

definition LimitReader :: "Reader \<Rightarrow> nat \<Rightarrow> Reader" where
  "LimitReader r n =
     \<lparr>avail = take n (avail r),
      failure = (if n \<le> length (avail r) then EOF else failure r)\<rparr>"

text \<open>Each reading function returns the identifier after the call, the count and the error.\<close>

definition readSignatureFrom :: "BlockID \<Rightarrow> Reader \<Rightarrow> BlockID \<times> int \<times> error option" where
  "readSignatureFrom bid r =
     (case ReadFull r (sig bid) of
        (n, Some err, buf, r') \<Rightarrow>
          if endOfStream err
          then (bid\<lparr>sig := buf\<rparr>, n, Some (Join ErrInvalidBlockIDDataSize err))
          else (bid\<lparr>sig := buf\<rparr>, n, Some err)
      | (n, None, buf, r') \<Rightarrow> (bid\<lparr>sig := buf\<rparr>, n, None))"

definition readDigestFrom :: "BlockID \<Rightarrow> Reader \<Rightarrow> BlockID \<times> int \<times> error option" where
  "readDigestFrom bid r =
     (case ReadFull r (dig bid) of
        (n, Some err, buf, r') \<Rightarrow>
          if endOfStream err
          then (bid\<lparr>dig := buf\<rparr>, n, Some (Join ErrInvalidBlockIDDataSize err))
          else (bid\<lparr>dig := buf\<rparr>, n, Some err)
      | (n, None, buf, r') \<Rightarrow> (bid\<lparr>dig := buf\<rparr>, n, None))"

definition readUndefinedFrom :: "BlockID \<Rightarrow> Reader \<Rightarrow> BlockID \<times> int \<times> error option" where
  "readUndefinedFrom bid r =
     (let lr = LimitReader r SignatureSize in
      case ReadFull lr (dig bid) of
        (n1, Some err, buf, lr') \<Rightarrow>
          if endOfStream err
          then (bid\<lparr>dig := buf\<rparr>, n1, Some (Join ErrInvalidBlockIDDataSize err))
          else (bid\<lparr>dig := buf\<rparr>, n1, Some err)
      | (n1, None, buf, lr') \<Rightarrow>
          (let bid1 = bid\<lparr>dig := buf\<rparr> in
           case ReadFull lr' (drop DigestSize (sig bid1)) of
             (n2, Some err, buf2, lr'') \<Rightarrow>
               (let bid2 = bid1\<lparr>sig := take DigestSize (sig bid1) @ buf2\<rparr> in
                if endOfStream err
                then (bid2\<lparr>idType := DigestID\<rparr>, n1 + n2, None)
                else (bid2, n1 + n2, Some err))
           | (n2, None, buf2, lr'') \<Rightarrow>
               (let bid2 = bid1\<lparr>sig := take DigestSize (sig bid1) @ buf2\<rparr>;
                    bid3 = bid2\<lparr>idType := SignatureID\<rparr>;
                    bid4 = bid3\<lparr>sig := go_copy (take DigestSize (sig bid3)) (dig bid3) @
                                         drop DigestSize (sig bid3)\<rparr>
                in (bid4\<lparr>dig := zeroDigest\<rparr>, n1 + n2, None))))"

definition ReadFrom :: "BlockID \<Rightarrow> Reader \<Rightarrow> BlockID \<times> int \<times> error option" where
  "ReadFrom bid r =
     (if idType bid = SignatureID then readSignatureFrom bid r
      else if idType bid = DigestID then readDigestFrom bid r
      else readUndefinedFrom bid r)"

subsection \<open>Headers\<close>

record ChallengedHeader =
  chTimestamp :: uint64
  chNxtConsensus :: NxtConsensus
  chFeatures :: "int16 list"
  chGeneratorPublicKey :: PublicKey
  chRewardVote :: int64
  chStateHash :: Digest
  chBlockSignature :: Signature

record BlockHeader =
  Version :: BlockVersion
  Timestamp :: uint64
  Parent :: BlockID
  FeaturesCount :: int
  Features :: "int16 list"
  RewardVote :: int64
  ConsensusBlockLength :: uint32
  NxtConsensus :: NxtConsensus
  TransactionBlockLength :: uint32
  TransactionCount :: int
  GeneratorPublicKey :: PublicKey
  BlockSignature :: Signature
  TransactionsRoot :: bytes
  StateHash :: "Digest option"
  ChallengedHeader :: "ChallengedHeader option"
  ID :: BlockID

text \<open>
  \<^verbatim>\<open>origHeader\<close>: the header as proposed before a challenge. The function does not
  assign through its receiver; it returns the receiver itself when there is no
  challenged header, and a modified copy otherwise.
\<close>

definition origHeader :: "'a BlockHeader_scheme \<Rightarrow> 'a BlockHeader_scheme \<times> bool" where
  "origHeader b =
     (case ChallengedHeader b of
        None \<Rightarrow> (b, False)
      | Some ch \<Rightarrow>
          (b\<lparr>ChallengedHeader := None,
             Timestamp := chTimestamp ch,
             NxtConsensus := chNxtConsensus ch,
             Features := chFeatures ch,
             GeneratorPublicKey := chGeneratorPublicKey ch,
             RewardVote := chRewardVote ch,
             StateHash := Some (chStateHash ch),
             BlockSignature := chBlockSignature ch\<rparr>, True))"

text \<open>
  The accessor \<^verbatim>\<open>BlockHeader.BlockID()\<close>, written \<open>BlockID_of\<close> because \<open>BlockID\<close>
  names the record.
\<close>

definition BlockID_of :: "'a BlockHeader_scheme \<Rightarrow> BlockID" where
  "BlockID_of b =
     (if Version b < ProtobufBlockVersion then NewBlockIDFromSignature (BlockSignature b)
      else ID b)"


subsection \<open>Transactions and the collaborators outside this file\<close>

text \<open>
  The methods of the \<^verbatim>\<open>Transaction\<close> interface that this file calls:
  \<^verbatim>\<open>MarshalBinary(scheme)\<close>, \<^verbatim>\<open>BinarySize()\<close>, \<^verbatim>\<open>MerkleBytes(scheme)\<close> and
  \<^verbatim>\<open>ToProtobufSigned(scheme)\<close>. The generated message \<^verbatim>\<open>g.SignedTransaction\<close> is opaque
  to this file; it is represented by a byte string.
\<close>

datatype PBSignedTransaction = PBSignedTransaction bytes

record Transaction =
  tx_MarshalBinary :: "Scheme \<Rightarrow> error + bytes"
  tx_BinarySize :: int
  tx_MerkleBytes :: "Scheme \<Rightarrow> error + bytes"
  tx_ToProtobufSigned :: "Scheme \<Rightarrow> error + PBSignedTransaction"

type_synonym Transactions = "Transaction list"

record Block = BlockHeader +
  Transactions :: Transactions

text \<open>A call either panics or returns.\<close>

datatype 'a call = Panics | Returns 'a

text \<open>
  The generated protobuf messages \<^verbatim>\<open>g.Block_Header_ChallengedHeader\<close>, \<^verbatim>\<open>g.Block_Header\<close>
  and \<^verbatim>\<open>g.Block\<close>.
\<close>

record PBChallengedHeader =
  pbchBaseTarget :: int64
  pbchGenerationSignature :: bytes
  pbchFeatureVotes :: "uint32 list"
  pbchTimestamp :: int64
  pbchGenerator :: bytes
  pbchRewardVote :: int64
  pbchStateHash :: bytes
  pbchHeaderSignature :: bytes

record PBHeader =
  pbChainId :: int32
  pbReference :: bytes
  pbBaseTarget :: int64
  pbGenerationSignature :: bytes
  pbFeatureVotes :: "uint32 list"
  pbTimestamp :: int64
  pbVersion :: int32
  pbGenerator :: bytes
  pbRewardVote :: int64
  pbTransactionsRoot :: bytes
  pbStateHash :: bytes
  pbChallengedHeader :: "PBChallengedHeader option"

record PBBlock =
  pbHeader :: "PBHeader option"
  pbSignature :: bytes
  pbTransactions :: "PBSignedTransaction list"

text \<open>
  The collaborators: \<^verbatim>\<open>crypto.Verify\<close>, \<^verbatim>\<open>crypto.FastHash\<close>,
  \<^verbatim>\<open>crypto.Signature.MarshalBinary\<close>, \<^verbatim>\<open>MarshalToProtobufDeterministic\<close> (at a header
  message), the Merkle tree (\<^verbatim>\<open>crypto.NewMerkleTree\<close>, \<^verbatim>\<open>Push\<close>, \<^verbatim>\<open>Root\<close>),
  \<^verbatim>\<open>BytesToTransactions\<close>, the generated codec of \<^verbatim>\<open>g.Block\<close> (\<^verbatim>\<open>MarshalVTStrict\<close>,
  \<^verbatim>\<open>UnmarshalVT\<close>) and \<^verbatim>\<open>ProtobufConverter.Block\<close>, which builds a \<^verbatim>\<open>Block\<close> from a
  message. Nothing is assumed about them in the definitions.
\<close>

record 'tree Env =
  crypto_Verify :: "PublicKey \<Rightarrow> Signature \<Rightarrow> bytes \<Rightarrow> bool"
  crypto_FastHash :: "bytes \<Rightarrow> error + Digest"
  Signature_MarshalBinary :: "Signature \<Rightarrow> error + bytes"
  MarshalToProtobufDeterministic :: "PBHeader \<Rightarrow> error + bytes"
  crypto_NewMerkleTree :: "error + 'tree"
  MerkleTree_Push :: "'tree \<Rightarrow> bytes \<Rightarrow> 'tree"
  MerkleTree_Root :: "'tree \<Rightarrow> Digest"
  BytesToTransactions :: "int \<Rightarrow> bytes \<Rightarrow> Scheme \<Rightarrow> (Transactions \<times> error option) call"
  MarshalVTStrict :: "PBBlock \<Rightarrow> error + bytes"
  UnmarshalVT :: "bytes \<Rightarrow> error + PBBlock"
  ProtobufConverter_Block :: "PBBlock \<Rightarrow> error + Block"

subsection \<open>Protobuf header and block identifier\<close>

text \<open>\<^verbatim>\<open>uint32(in)\<close> at an \<^verbatim>\<open>int16\<close> extends the sign.\<close>

definition int16SliceToUint32 :: "int16 list \<Rightarrow> uint32 list" where
  "int16SliceToUint32 ins = map (\<lambda>i. word_of_int (sint i)) ins"

definition ToProtobuf :: "'t Env \<Rightarrow> ChallengedHeader \<Rightarrow> error + PBChallengedHeader" where
  "ToProtobuf env ch =
     (case Signature_MarshalBinary env (chBlockSignature ch) of
        Inl err \<Rightarrow> Inl err
      | Inr headerSig \<Rightarrow>
          Inr \<lparr>pbchBaseTarget = BaseTarget (chNxtConsensus ch),
               pbchGenerationSignature = GenSignature (chNxtConsensus ch),
               pbchFeatureVotes = int16SliceToUint32 (chFeatures ch),
               pbchTimestamp = chTimestamp ch,
               pbchGenerator = chGeneratorPublicKey ch,
               pbchRewardVote = chRewardVote ch,
               pbchStateHash = chStateHash ch,
               pbchHeaderSignature = headerSig\<rparr>)"

definition HeaderToProtobufHeader ::
  "'t Env \<Rightarrow> 'a BlockHeader_scheme \<Rightarrow> Scheme \<Rightarrow> error + PBHeader" where
  "HeaderToProtobufHeader env b scheme =
     (case (case ChallengedHeader b of
              None \<Rightarrow> Inr None
            | Some ch \<Rightarrow> (case ToProtobuf env ch of Inl err \<Rightarrow> Inl err | Inr c \<Rightarrow> Inr (Some c))) of
        Inl err \<Rightarrow> Inl err
      | Inr challengedHeader \<Rightarrow>
          (let stateHash = (case StateHash b of None \<Rightarrow> [] | Some sh \<Rightarrow> sh) in
           Inr \<lparr>pbChainId = ucast scheme,
                pbReference = Bytes (Parent b),
                pbBaseTarget = BaseTarget (NxtConsensus b),
                pbGenerationSignature = GenSignature (NxtConsensus b),
                pbFeatureVotes = int16SliceToUint32 (Features b),
                pbTimestamp = Timestamp b,
                pbVersion = ucast (Version b),
                pbGenerator = GeneratorPublicKey b,
                pbRewardVote = RewardVote b,
                pbTransactionsRoot = TransactionsRoot b,
                pbStateHash = stateHash,
                pbChallengedHeader = challengedHeader\<rparr>))"

definition MarshalHeaderToProtobufWithoutSignature ::
  "'t Env \<Rightarrow> 'a BlockHeader_scheme \<Rightarrow> Scheme \<Rightarrow> error + bytes" where
  "MarshalHeaderToProtobufWithoutSignature env b scheme =
     (case HeaderToProtobufHeader env b scheme of
        Inl err \<Rightarrow> Inl err
      | Inr header \<Rightarrow> MarshalToProtobufDeterministic env header)"

text \<open>
  \<^verbatim>\<open>GenerateBlockID\<close> assigns the field \<^verbatim>\<open>ID\<close> of its receiver: the model returns the
  header after the call and the error (\<open>None\<close> is \<^verbatim>\<open>nil\<close>).
\<close>

definition GenerateBlockID ::
  "'t Env \<Rightarrow> 'a BlockHeader_scheme \<Rightarrow> Scheme \<Rightarrow> 'a BlockHeader_scheme \<times> error option" where
  "GenerateBlockID env b scheme =
     (if Version b < ProtobufBlockVersion then
        (b\<lparr>ID := NewBlockIDFromSignature (BlockSignature b)\<rparr>, None)
      else
        (case MarshalHeaderToProtobufWithoutSignature env b scheme of
           Inl err \<Rightarrow> (b, Some err)
         | Inr headerBytes \<Rightarrow>
             (case crypto_FastHash env headerBytes of
                Inl err \<Rightarrow> (b, Some err)
              | Inr hash \<Rightarrow> (b\<lparr>ID := NewBlockIDFromDigest hash\<rparr>, None))))"


subsection \<open>Big-endian integers and slices\<close>

text \<open>
  \<^verbatim>\<open>binary.BigEndian\<close>: \<open>be_encode n v\<close> is the \<open>n\<close> low-order bytes of \<open>v\<close>, most
  significant first; \<open>be_decode\<close> reads a byte string as a number.
\<close>

fun be_encode :: "nat \<Rightarrow> nat \<Rightarrow> bytes" where
  "be_encode 0 v = []"
| "be_encode (Suc n) v = be_encode n (v div 256) @ [of_nat (v mod 256)]"

definition be_decode :: "bytes \<Rightarrow> nat" where
  "be_decode bs = foldl (\<lambda>acc b. acc * 256 + unat b) 0 bs"

definition PutUint32 :: "uint32 \<Rightarrow> bytes" where
  "PutUint32 w = be_encode 4 (unat w)"

definition PutUint64 :: "uint64 \<Rightarrow> bytes" where
  "PutUint64 w = be_encode 8 (unat w)"

definition Uint32 :: "bytes \<Rightarrow> uint32" where
  "Uint32 bs = of_nat (be_decode bs)"

definition Uint64 :: "bytes \<Rightarrow> uint64" where
  "Uint64 bs = of_nat (be_decode bs)"

text \<open>
  \<^verbatim>\<open>featuresToBinary\<close> and \<^verbatim>\<open>featuresFromBinary\<close>: \<^verbatim>\<open>binary.Write\<close> and \<^verbatim>\<open>binary.Read\<close> of
  an \<^verbatim>\<open>[]int16\<close> on a \<^verbatim>\<open>bytes.Buffer\<close>, two bytes per element. The reader is asked for
  \<open>len(data)/2\<close> elements, which the buffer always holds, so neither returns an error.
\<close>

definition featuresToBinary :: "int16 list \<Rightarrow> error + bytes" where
  "featuresToBinary features = Inr (concat (map (\<lambda>f. be_encode 2 (unat f)) features))"

fun int16sFromBinary :: "nat \<Rightarrow> bytes \<Rightarrow> int16 list" where
  "int16sFromBinary 0 data = []"
| "int16sFromBinary (Suc n) data = of_nat (be_decode (take 2 data)) # int16sFromBinary n (drop 2 data)"

definition featuresFromBinary :: "bytes \<Rightarrow> error + int16 list" where
  "featuresFromBinary data = Inr (int16sFromBinary (length data div 2) data)"

text \<open>
  A \<^verbatim>\<open>[]byte\<close> with its capacity: \<open>contents\<close> are the elements below \<^verbatim>\<open>len\<close>, \<open>spare\<close> the
  bytes of the backing array from \<^verbatim>\<open>len\<close> up to \<^verbatim>\<open>cap\<close>.
\<close>

record ByteSlice =
  contents :: bytes
  spare :: bytes

definition go_len :: "ByteSlice \<Rightarrow> int" where
  "go_len data = int (length (contents data))"

definition go_cap :: "ByteSlice \<Rightarrow> int" where
  "go_cap data = int (length (contents data)) + int (length (spare data))"

text \<open>
  The slice expression \<^verbatim>\<open>data[lo:hi]\<close> and the index expression \<^verbatim>\<open>data[i]\<close>, with Go's
  run-time checks: \<open>None\<close> is the panic of an index out of range. The index expression
  is checked against the length. The slice expression on a slice is checked against the
  capacity, \<^verbatim>\<open>0 <= lo <= hi <= cap(data)\<close>, and can reach into the spare part of the
  backing array. Its value is used by the decoders only through its elements, so
  \<open>go_slice\<close> returns these.
\<close>

definition go_slice :: "ByteSlice \<Rightarrow> int \<Rightarrow> int \<Rightarrow> bytes option" where
  "go_slice data lo hi =
     (if 0 \<le> lo \<and> lo \<le> hi \<and> hi \<le> go_cap data
      then Some (take (nat (hi - lo)) (drop (nat lo) (contents data @ spare data))) else None)"

definition go_index :: "bytes \<Rightarrow> int \<Rightarrow> byte option" where
  "go_index data i = (if 0 \<le> i \<and> i < int (length data) then Some (data ! nat i) else None)"

subsection \<open>Transactions collection\<close>



text \<open>
  \<^verbatim>\<open>Transactions.WriteToBinary\<close> into a buffer that accepts every write: the bytes
  written, or the first error of a transaction's \<^verbatim>\<open>MarshalBinary\<close>.
\<close>

fun WriteToBinary :: "Transactions \<Rightarrow> Scheme \<Rightarrow> error + bytes" where
  "WriteToBinary [] scheme = Inr []"
| "WriteToBinary (t # ts) scheme =
     (case tx_MarshalBinary t scheme of
        Inl err \<Rightarrow> Inl err
      | Inr bts \<Rightarrow>
          (case WriteToBinary ts scheme of
             Inl err \<Rightarrow> Inl err
           | Inr rest \<Rightarrow> Inr (PutUint32 (of_nat (length bts)) @ bts @ rest)))"

subsection \<open>Binary encoding of a block\<close>

text \<open>
  Modelled from the spec: the serializer (\<^verbatim>\<open>pkg/libs/serializer\<close>) through which
  \<^verbatim>\<open>WriteToWithoutSignature\<close> and \<^verbatim>\<open>WriteToBinary\<close> write is defined outside
  \<^verbatim>\<open>block.go\<close>. By Section 4.2 of the specification its \<^verbatim>\<open>Uint32\<close>, \<^verbatim>\<open>Uint64\<close> and
  \<^verbatim>\<open>Int64\<close> append 4, 8 and 8 big-endian bytes, as \<^verbatim>\<open>MarshalHeaderToBinary\<close> of this file
  does with \<^verbatim>\<open>binary.BigEndian\<close> for the same fields; \<^verbatim>\<open>Byte\<close> and \<^verbatim>\<open>Bytes\<close> append
  their argument. The writer is a pooled buffer, which accepts every write, so a function
  returns the bytes written or the first error.
\<close>

definition WriteToWithoutSignature :: "Block \<Rightarrow> Scheme \<Rightarrow> error + bytes" where
  "WriteToWithoutSignature b scheme =
     (if Version b \<ge> ProtobufBlockVersion then
        Inl (ErrorNew ''binary format is not defined for Block versions > 4'')
      else
        (let parentBytes = Bytes (Parent b) in
         if length parentBytes \<noteq> SignatureSize then
           Inl (ErrorNew ''bad parent length for non-protobuf block'')
         else
           (case WriteToBinary (Transactions b) scheme of
              Inl err \<Rightarrow> Inl err
            | Inr txs \<Rightarrow>
                (case (if Version b \<ge> NgBlockVersion then
                         (case featuresToBinary (Features b) of
                            Inl err \<Rightarrow> Inl err
                          | Inr fb \<Rightarrow>
                              Inr (PutUint32 (word_of_int (FeaturesCount b)) @ fb @
                                   (if Version b \<ge> RewardBlockVersion
                                    then PutUint64 (RewardVote b) else [])))
                       else Inr []) of
                   Inl err \<Rightarrow> Inl err
                 | Inr features \<Rightarrow>
                     Inr ([Version b] @ PutUint64 (Timestamp b) @ parentBytes @
                          PutUint32 (ConsensusBlockLength b) @
                          PutUint64 (BaseTarget (NxtConsensus b)) @
                          GenSignature (NxtConsensus b) @
                          PutUint32 (TransactionBlockLength b) @
                          (if Version b \<ge> NgBlockVersion
                           then PutUint32 (word_of_int (TransactionCount b))
                           else [word_of_int (TransactionCount b)]) @
                          txs @ features @ GeneratorPublicKey b)))))"

definition WriteTo :: "Block \<Rightarrow> Scheme \<Rightarrow> error + bytes" where
  "WriteTo b scheme =
     (if Version b \<ge> ProtobufBlockVersion then
        Inl (ErrorNew ''binary format is not defined for Block versions > 4'')
      else
        (case WriteToWithoutSignature b scheme of
           Inl err \<Rightarrow> Inl err
         | Inr bs \<Rightarrow> Inr (bs @ BlockSignature b)))"

definition MarshalBinary :: "Block \<Rightarrow> Scheme \<Rightarrow> error + bytes" where
  "MarshalBinary b scheme =
     (if Version b \<ge> ProtobufBlockVersion then
        Inl (ErrorNew ''binary format is not defined for Block versions > 4'')
      else
        (case WriteTo b scheme of
           Inl err \<Rightarrow> Inl err
         | Inr out \<Rightarrow> Inr out))"

subsection \<open>Protobuf encoding of a block\<close>







subsection \<open>Signature and transactions root\<close>

definition VerifySignature :: "'t Env \<Rightarrow> Block \<Rightarrow> Scheme \<Rightarrow> bool \<times> error option" where
  "VerifySignature env b scheme =
     (if Version b < ProtobufBlockVersion then
        (case WriteToWithoutSignature b scheme of
           Inl err \<Rightarrow> (False, Some err)
         | Inr buf \<Rightarrow> (crypto_Verify env (GeneratorPublicKey b) (BlockSignature b) buf, None))
      else
        (case MarshalHeaderToProtobufWithoutSignature env b scheme of
           Inl err \<Rightarrow> (False, Some (Wrap err ''failed to marshal header to protobuf''))
         | Inr headerBytes \<Rightarrow>
             (let isHeaderValid =
                    crypto_Verify env (GeneratorPublicKey b) (BlockSignature b) headerBytes in
              if \<not> isHeaderValid then (False, None)
              else
                (case origHeader b of
                   (orig, changed) \<Rightarrow>
                     if \<not> changed then (True, None)
                     else
                       (case MarshalHeaderToProtobufWithoutSignature env orig scheme of
                          Inl err \<Rightarrow>
                            (False,
                             Some (Wrap err ''failed to marshal challenged header to protobuf''))
                        | Inr origHeaderBytes \<Rightarrow>
                            (crypto_Verify env (GeneratorPublicKey orig) (BlockSignature orig)
                               origHeaderBytes, None))))))"

text \<open>
  The loop of \<^verbatim>\<open>transactionsRoot\<close>: push the Merkle bytes of each transaction, in order.
\<close>

fun pushAll :: "'t Env \<Rightarrow> 't \<Rightarrow> Transactions \<Rightarrow> Scheme \<Rightarrow> error + 't" where
  "pushAll env tree [] scheme = Inr tree"
| "pushAll env tree (tx # txs) scheme =
     (case tx_MerkleBytes tx scheme of
        Inl err \<Rightarrow> Inl err
      | Inr b \<Rightarrow> pushAll env (MerkleTree_Push env tree b) txs scheme)"

definition transactionsRoot :: "'t Env \<Rightarrow> Block \<Rightarrow> Scheme \<Rightarrow> error + bytes" where
  "transactionsRoot env b scheme =
     (if Version b < ProtobufBlockVersion then
        Inl (Errorf ''no transactions root prior block version %d, current version %d''
               [unat ProtobufBlockVersion, unat (Version b)])
      else
        (case crypto_NewMerkleTree env of
           Inl err \<Rightarrow> Inl err
         | Inr tree \<Rightarrow>
             (case pushAll env tree (Transactions b) scheme of
                Inl err \<Rightarrow> Inl err
              | Inr tree' \<Rightarrow> Inr (MerkleTree_Root env tree'))))"

definition SetTransactionsRoot :: "'t Env \<Rightarrow> Block \<Rightarrow> Scheme \<Rightarrow> Block \<times> error option" where
  "SetTransactionsRoot env b scheme =
     (case transactionsRoot env b scheme of
        Inl err \<Rightarrow> (b, Some err)
      | Inr rh \<Rightarrow> (b\<lparr>TransactionsRoot := rh\<rparr>, None))"

definition SetTransactionsRootIfPossible :: "'t Env \<Rightarrow> Block \<Rightarrow> Scheme \<Rightarrow> Block \<times> error option" where
  "SetTransactionsRootIfPossible env b scheme =
     (if Version b < ProtobufBlockVersion then (b, None)
      else SetTransactionsRoot env b scheme)"



subsection \<open>Binary decoding\<close>

text \<open>
  \<^verbatim>\<open>UnmarshalHeaderFromBinary\<close> and \<^verbatim>\<open>UnmarshalBinary\<close> assign the fields of their
  receiver one by one, can panic at every slice expression, and recover from a panic in
  a deferred function. The body of each is modelled as a function from the receiver
  before the call to the receiver after it and the way the body ended
  (\<open>Panics\<close>, or \<open>Returns\<close> with the error, \<open>None\<close> being \<^verbatim>\<open>nil\<close>).

  The two functions open with the same statements (version to reward-vote default) and
  close with the same statements (generator key, signature, block identifier). These
  two runs of statements are \<open>unmarshalPrefix\<close> and \<open>unmarshalTail\<close>; the
  statements between them (\<open>unmarshalHeaderMiddle\<close>, \<open>unmarshalBlockMiddle\<close>) run on
  the receiver as the prefix leaves it.

  The input \<open>data\<close> is a slice with its capacity. \<^verbatim>\<open>len(data)\<close> is \<open>go_len data\<close>;
  \<^verbatim>\<open>data[i]\<close> reads the contents; \<^verbatim>\<open>data[lo:hi]\<close> is \<open>go_slice data lo hi\<close>, whose
  elements are handed to \<^verbatim>\<open>binary.BigEndian\<close>, \<^verbatim>\<open>copy\<close>, \<^verbatim>\<open>NewBlockIDFromBytes\<close>,
  \<^verbatim>\<open>featuresFromBinary\<close> and \<^verbatim>\<open>BytesToTransactions\<close>.
\<close>

definition unmarshalPrefix ::
  "ByteSlice \<Rightarrow> 'a BlockHeader_scheme \<Rightarrow>
   ('a BlockHeader_scheme \<Rightarrow> 'a BlockHeader_scheme \<times> error option call) \<Rightarrow>
   'a BlockHeader_scheme \<times> error option call" where
  "unmarshalPrefix data b0 rest =
     (case go_index (contents data) 0 of None \<Rightarrow> (b0, Panics) | Some v \<Rightarrow>
     (let b = b0\<lparr>Version := v\<rparr> in
      if Version b \<ge> ProtobufBlockVersion then
        (b, Returns (Some (ErrorNew ''binary format is not defined for Block versions > 4'')))
      else
     (case go_slice data 1 9 of None \<Rightarrow> (b, Panics) | Some ts \<Rightarrow>
     (let b = b\<lparr>Timestamp := Uint64 ts\<rparr> in
     (case go_slice data 9 73 of None \<Rightarrow> (b, Panics) | Some parentBytes \<Rightarrow>
     (case NewBlockIDFromBytes parentBytes of Inl err \<Rightarrow> (b, Returns (Some err)) | Inr parent \<Rightarrow>
     (let b = b\<lparr>Parent := parent\<rparr> in
     (case go_slice data 73 77 of None \<Rightarrow> (b, Panics) | Some cbl \<Rightarrow>
     (let b = b\<lparr>ConsensusBlockLength := Uint32 cbl\<rparr> in
     (case go_slice data 77 85 of None \<Rightarrow> (b, Panics) | Some bt \<Rightarrow>
     (let b = b\<lparr>NxtConsensus := (NxtConsensus b)\<lparr>BaseTarget := Uint64 bt\<rparr>\<rparr>;
          b = b\<lparr>NxtConsensus := (NxtConsensus b)\<lparr>GenSignature := replicate DigestSize 0\<rparr>\<rparr> in
     (case go_slice data 85 117 of None \<Rightarrow> (b, Panics) | Some gs \<Rightarrow>
     (let b = b\<lparr>NxtConsensus :=
                  (NxtConsensus b)\<lparr>GenSignature := go_copy (GenSignature (NxtConsensus b)) gs\<rparr>\<rparr> in
     (case go_slice data 117 121 of None \<Rightarrow> (b, Panics) | Some tbl \<Rightarrow>
     (let b = b\<lparr>TransactionBlockLength := Uint32 tbl\<rparr>;
          b = b\<lparr>RewardVote := - 1\<rparr> in
      rest b)))))))))))))))"

definition unmarshalTail ::
  "'t Env \<Rightarrow> ByteSlice \<Rightarrow> Scheme \<Rightarrow> 'a BlockHeader_scheme \<Rightarrow>
   'a BlockHeader_scheme \<times> error option call" where
  "unmarshalTail env data scheme b0 =
     (case go_slice data (go_len data - 64 - 32) (go_len data - 64) of
        None \<Rightarrow> (b0, Panics) | Some pk \<Rightarrow>
     (let b = b0\<lparr>GeneratorPublicKey := pk\<rparr> in
     (case go_slice data (go_len data - 64) (go_len data) of
        None \<Rightarrow> (b, Panics) | Some sg \<Rightarrow>
     (let b = b\<lparr>BlockSignature := sg\<rparr> in
     (case GenerateBlockID env b scheme of
        (b', Some err) \<Rightarrow> (b', Returns (Some (Wrap err ''failed to generate block ID'')))
      | (b', None) \<Rightarrow> (b', Returns None))))))"

text \<open>The statements of \<^verbatim>\<open>UnmarshalHeaderFromBinary\<close> between prefix and tail.\<close>

definition unmarshalHeaderMiddle ::
  "'t Env \<Rightarrow> ByteSlice \<Rightarrow> Scheme \<Rightarrow> 'a BlockHeader_scheme \<Rightarrow>
   'a BlockHeader_scheme \<times> error option call" where
  "unmarshalHeaderMiddle env data scheme b0 =
     (if Version b0 \<ge> NgBlockVersion then
        if TransactionBlockLength b0 < 4 then
          (b0, Returns (Some (ErrorNew ''TransactionBlockLength is too small'')))
        else
       (case go_slice data 121 125 of None \<Rightarrow> (b0, Panics) | Some tc \<Rightarrow>
       (let b = b0\<lparr>TransactionCount := uint (Uint32 tc)\<rparr> in
       (case go_slice data 125 129 of None \<Rightarrow> (b, Panics) | Some fc \<Rightarrow>
       (let b = b\<lparr>FeaturesCount := uint (Uint32 fc)\<rparr>;
            b = b\<lparr>Features := replicate (nat (FeaturesCount b)) 0\<rparr> in
       (case go_slice data 129 (129 + 2 * FeaturesCount b) of None \<Rightarrow> (b, Panics) | Some fbs \<Rightarrow>
       (case featuresFromBinary fbs of
          Inl err \<Rightarrow>
            (b, Returns (Some (Wrap err ''failed to convert features from binary representation'')))
        | Inr fb \<Rightarrow>
       (let b = b\<lparr>Features := go_copy (Features b) fb\<rparr> in
        if Version b \<ge> RewardBlockVersion then
          (let pos = 129 + 2 * FeaturesCount b in
           (case go_slice data pos (pos + 8) of None \<Rightarrow> (b, Panics) | Some rv \<Rightarrow>
            unmarshalTail env data scheme (b\<lparr>RewardVote := Uint64 rv\<rparr>)))
        else unmarshalTail env data scheme b)))))))
      else
        if TransactionBlockLength b0 < 1 then
          (b0, Returns (Some (ErrorNew ''TransactionBlockLength is too small'')))
        else
       (case go_index (contents data) 121 of None \<Rightarrow> (b0, Panics) | Some tc \<Rightarrow>
       (let b = b0\<lparr>TransactionCount := uint tc\<rparr>;
            b = b\<lparr>Features := []\<rparr> in
        unmarshalTail env data scheme b)))"

definition UnmarshalHeaderFromBinary_body ::
  "'t Env \<Rightarrow> 'a BlockHeader_scheme \<Rightarrow> ByteSlice \<Rightarrow> Scheme \<Rightarrow>
   'a BlockHeader_scheme \<times> error option call" where
  "UnmarshalHeaderFromBinary_body env b0 data scheme =
     unmarshalPrefix data b0 (unmarshalHeaderMiddle env data scheme)"

text \<open>
  The statements of \<^verbatim>\<open>UnmarshalBinary\<close> between prefix and tail. The offsets
  \<^verbatim>\<open>txEnd\<close>, \<^verbatim>\<open>featuresStart\<close> and \<^verbatim>\<open>pos\<close> are \<^verbatim>\<open>uint32\<close> and wrap around.
\<close>

definition unmarshalBlockMiddle ::
  "'t Env \<Rightarrow> ByteSlice \<Rightarrow> Scheme \<Rightarrow> Block \<Rightarrow> Block \<times> error option call" where
  "unmarshalBlockMiddle env data scheme b0 =
     (if Version b0 \<ge> NgBlockVersion then
        if TransactionBlockLength b0 < 4 then
          (b0, Returns (Some (ErrorNew ''TransactionBlockLength is too small'')))
        else
       (case go_slice data 121 125 of None \<Rightarrow> (b0, Panics) | Some tc \<Rightarrow>
       (let b = b0\<lparr>TransactionCount := uint (Uint32 tc)\<rparr>;
            txEnd = (121 :: uint32) + TransactionBlockLength b in
       (case go_slice data 125 (uint txEnd) of None \<Rightarrow> (b, Panics) | Some transBytes \<Rightarrow>
       (case BytesToTransactions env (TransactionCount b) transBytes scheme of
          Panics \<Rightarrow> (b, Panics)
        | Returns (txs, Some err) \<Rightarrow>
            (b\<lparr>Transactions := txs\<rparr>,
             Returns (Some (Wrap err ''failed to unmarshal transactions from bytes'')))
        | Returns (txs, None) \<Rightarrow>
       (let b = b\<lparr>Transactions := txs\<rparr>;
            featuresStart = txEnd + 4 in
       (case go_slice data (uint txEnd) (uint featuresStart) of None \<Rightarrow> (b, Panics) | Some fc \<Rightarrow>
       (let b = b\<lparr>FeaturesCount := uint (Uint32 fc)\<rparr>;
            b = b\<lparr>Features := replicate (nat (FeaturesCount b)) 0\<rparr> in
       (case go_slice data (uint featuresStart)
               (uint (featuresStart + word_of_int (2 * FeaturesCount b))) of
          None \<Rightarrow> (b, Panics) | Some fbs \<Rightarrow>
       (case featuresFromBinary fbs of
          Inl err \<Rightarrow>
            (b, Returns (Some (Wrap err ''failed to convert features from binary representation'')))
        | Inr fb \<Rightarrow>
       (let b = b\<lparr>Features := go_copy (Features b) fb\<rparr> in
        if Version b \<ge> RewardBlockVersion then
          (let pos = featuresStart + word_of_int (2 * FeaturesCount b) in
           (case go_slice data (uint pos) (uint (pos + 8)) of None \<Rightarrow> (b, Panics) | Some rv \<Rightarrow>
            unmarshalTail env data scheme (b\<lparr>RewardVote := Uint64 rv\<rparr>)))
        else unmarshalTail env data scheme b)))))))))) 
      else
        if TransactionBlockLength b0 < 1 then
          (b0, Returns (Some (ErrorNew ''TransactionBlockLength is too small'')))
        else
       (case go_index (contents data) 121 of None \<Rightarrow> (b0, Panics) | Some tc \<Rightarrow>
       (let b = b0\<lparr>TransactionCount := uint tc\<rparr> in
       (case go_slice data 122 (uint ((122 :: uint32) + TransactionBlockLength b - 1)) of
          None \<Rightarrow> (b, Panics) | Some transBytes \<Rightarrow>
       (case BytesToTransactions env (TransactionCount b) transBytes scheme of
          Panics \<Rightarrow> (b, Panics)
        | Returns (txs, Some err) \<Rightarrow>
            (b\<lparr>Transactions := txs\<rparr>,
             Returns (Some (Wrap err ''failed to unmarshal transactions from bytes'')))
        | Returns (txs, None) \<Rightarrow>
       (let b = b\<lparr>Transactions := txs\<rparr>;
            b = b\<lparr>Features := []\<rparr> in
        unmarshalTail env data scheme b))))))"

definition UnmarshalBinary_body ::
  "'t Env \<Rightarrow> Block \<Rightarrow> ByteSlice \<Rightarrow> Scheme \<Rightarrow> Block \<times> error option call" where
  "UnmarshalBinary_body env b0 data scheme =
     unmarshalPrefix data b0 (unmarshalBlockMiddle env data scheme)"

text \<open>
  The deferred function: \<^verbatim>\<open>if recover() != nil { err = errors.New("invalid data size") }\<close>.
  The result type keeps the constructor \<open>Panics\<close>, so that a function that never panics
  is a statement, not a consequence of the type.
\<close>

definition recovered :: "'b \<times> error option call \<Rightarrow> 'b \<times> error option call" where
  "recovered r =
     (case r of
        (b, Panics) \<Rightarrow> (b, Returns (Some (ErrorNew ''invalid data size'')))
      | (b, Returns err) \<Rightarrow> (b, Returns err))"

definition UnmarshalHeaderFromBinary ::
  "'t Env \<Rightarrow> 'a BlockHeader_scheme \<Rightarrow> ByteSlice \<Rightarrow> Scheme \<Rightarrow>
   'a BlockHeader_scheme \<times> error option call" where
  "UnmarshalHeaderFromBinary env b data scheme =
     recovered (UnmarshalHeaderFromBinary_body env b data scheme)"

definition UnmarshalBinary ::
  "'t Env \<Rightarrow> Block \<Rightarrow> ByteSlice \<Rightarrow> Scheme \<Rightarrow> Block \<times> error option call" where
  "UnmarshalBinary env b data scheme = recovered (UnmarshalBinary_body env b data scheme)"

subsection \<open>Construction\<close>



subsection \<open>A concrete environment\<close>

text \<open>
  Modelled from the spec: \<^verbatim>\<open>BytesToTransactions\<close> is defined outside
  \<^verbatim>\<open>block.go\<close>. Section 4.4 of the specification gives the binary form of a
  transactions collection as a sequence of entries, a 4-byte big-endian length and that many
  bytes of the transaction, in list order, and says that decoding stops when the number of
  entries declared by the caller has been consumed. \<open>dec\<close> decodes one transaction.
  The definitions of this subsection give the parameters of the model concrete values for
  instances of the theorems; no theorem about the code assumes them.
\<close>

fun decodeEntries ::
  "(bytes \<Rightarrow> Scheme \<Rightarrow> error + Transaction) \<Rightarrow> nat \<Rightarrow> bytes \<Rightarrow> Scheme \<Rightarrow> error + Transactions" where
  "decodeEntries dec 0 data scheme = Inr []"
| "decodeEntries dec (Suc n) data scheme =
     (if length data < 4 then Inl (ErrorNew ''invalid data size'')
      else
        (let sz = unat (Uint32 (take 4 data)) in
         if length data < 4 + sz then Inl (ErrorNew ''invalid data size'')
         else
           (case dec (take sz (drop 4 data)) scheme of
              Inl err \<Rightarrow> Inl err
            | Inr tx \<Rightarrow>
                (case decodeEntries dec n (drop (4 + sz) data) scheme of
                   Inl err \<Rightarrow> Inl err
                 | Inr txs \<Rightarrow> Inr (tx # txs)))))"

definition BytesToTransactions_spec ::
  "(bytes \<Rightarrow> Scheme \<Rightarrow> error + Transaction) \<Rightarrow> int \<Rightarrow> bytes \<Rightarrow> Scheme \<Rightarrow>
   (Transactions \<times> error option) call" where
  "BytesToTransactions_spec dec count data scheme =
     Returns (case decodeEntries dec (nat count) data scheme of
                Inl err \<Rightarrow> ([], Some err)
              | Inr txs \<Rightarrow> (txs, None))"

text \<open>
  A transaction whose binary form, Merkle bytes and protobuf message are a given byte
  string.
\<close>

definition rawTx :: "bytes \<Rightarrow> Transaction" where
  "rawTx bs =
     \<lparr>tx_MarshalBinary = (\<lambda>scheme. Inr bs),
      tx_BinarySize = int (length bs),
      tx_MerkleBytes = (\<lambda>scheme. Inr bs),
      tx_ToProtobufSigned = (\<lambda>scheme. Inr (PBSignedTransaction bs))\<rparr>"

text \<open>The zero value \<^verbatim>\<open>Block{}\<close>.\<close>

definition emptyBlock :: Block where
  "emptyBlock =
     \<lparr>Version = 0, Timestamp = 0, Parent = emptyBlockID, FeaturesCount = 0, Features = [],
      RewardVote = 0, ConsensusBlockLength = 0,
      NxtConsensus = \<lparr>BaseTarget = 0, GenSignature = []\<rparr>,
      TransactionBlockLength = 0, TransactionCount = 0,
      GeneratorPublicKey = replicate PublicKeySize 0, BlockSignature = zeroSignature,
      TransactionsRoot = [], StateHash = None, ChallengedHeader = None, ID = emptyBlockID,
      Transactions = []\<rparr>"

text \<open>A block of a given version with given transactions, generator key and signature.\<close>

definition sampleBlock :: "BlockVersion \<Rightarrow> Transactions \<Rightarrow> PublicKey \<Rightarrow> Signature \<Rightarrow> Block" where
  "sampleBlock v txs pk sg =
     emptyBlock\<lparr>Version := v, Timestamp := 1700000000000,
       Parent := NewBlockIDFromSignature (replicate SignatureSize 3),
       RewardVote := - 1, ConsensusBlockLength := 40,
       NxtConsensus := \<lparr>BaseTarget = 100, GenSignature = zeroDigest\<rparr>,
       TransactionCount := int (length txs),
       GeneratorPublicKey := pk, BlockSignature := sg, Transactions := txs\<rparr>"

text \<open>
  A toy codec of \<^verbatim>\<open>g.Block\<close> and a toy converter, for blocks of the shape
  \<open>sampleBlock 5 [] pk sg\<close> under scheme 87: the bytes are the generator key followed by
  the signature, the decoder rebuilds the header message of such a block around the key,
  and the converter rebuilds the block and sets its ID to the Digest variant of the hash
  that the toy environment gives the header.
\<close>

definition toyHeaderMessage :: "bytes \<Rightarrow> PBHeader" where
  "toyHeaderMessage pk =
     \<lparr>pbChainId = 87, pbReference = replicate SignatureSize 3, pbBaseTarget = 100,
      pbGenerationSignature = zeroDigest, pbFeatureVotes = [], pbTimestamp = 1700000000000,
      pbVersion = 5, pbGenerator = pk, pbRewardVote = - 1, pbTransactionsRoot = [],
      pbStateHash = [], pbChallengedHeader = None\<rparr>"

definition toyBlockBytes :: "PBBlock \<Rightarrow> error + bytes" where
  "toyBlockBytes pb =
     (case pbHeader pb of
        None \<Rightarrow> Inl (ErrExternal 1)
      | Some h \<Rightarrow> Inr (pbGenerator h @ pbSignature pb))"

definition toyBlockMessage :: "bytes \<Rightarrow> error + PBBlock" where
  "toyBlockMessage data =
     Inr \<lparr>pbHeader = Some (toyHeaderMessage (take PublicKeySize data)),
          pbSignature = drop PublicKeySize data, pbTransactions = []\<rparr>"

definition toyConverter :: "PBBlock \<Rightarrow> error + Block" where
  "toyConverter pb =
     (case pbHeader pb of
        None \<Rightarrow> Inl (ErrExternal 2)
      | Some h \<Rightarrow>
          Inr ((sampleBlock 5 [] (pbGenerator h) (pbSignature pb))
                 \<lparr>ID := NewBlockIDFromDigest (take DigestSize (pbGenerator h @ zeroDigest))\<rparr>))"

text \<open>
  A toy environment: a signature is valid when it is the message followed by the key,
  the hash is the first 32 bytes (zero padded), a header message is encoded as its
  generator field, and the tree is the list of its leaves with their concatenation as root.
\<close>

definition toyEnv :: "bytes list Env" where
  "toyEnv =
     \<lparr>crypto_Verify = (\<lambda>pk sg msg. sg = msg @ pk),
      crypto_FastHash = (\<lambda>bs. Inr (take DigestSize (bs @ zeroDigest))),
      Signature_MarshalBinary = (\<lambda>sg. Inr sg),
      MarshalToProtobufDeterministic = (\<lambda>h. Inr (pbGenerator h)),
      crypto_NewMerkleTree = Inr [],
      MerkleTree_Push = (\<lambda>tree b. tree @ [b]),
      MerkleTree_Root = concat,
      BytesToTransactions = BytesToTransactions_spec (\<lambda>bs scheme. Inr (rawTx bs)),
      MarshalVTStrict = toyBlockBytes,
      UnmarshalVT = toyBlockMessage,
      ProtobufConverter_Block = toyConverter\<rparr>"



text \<open>
  The same environment with a header encoding that writes every field of the message:
  first the challenged header's message (a byte 1 and its fields, the header signature
  first; a byte 0 when there is none), then chain id and version as one byte each, then
  the generator, the reference and the other fields in turn.
\<close>

definition fieldsEncoding :: "PBHeader \<Rightarrow> bytes" where
  "fieldsEncoding h =
     (case pbChallengedHeader h of
        None \<Rightarrow> [0]
      | Some c \<Rightarrow>
          1 # pbchHeaderSignature c @ pbchGenerator c @ pbchGenerationSignature c @
          pbchStateHash c @ PutUint64 (pbchTimestamp c) @ PutUint64 (pbchBaseTarget c) @
          concat (map PutUint32 (pbchFeatureVotes c)) @ PutUint64 (pbchRewardVote c)) @
     [ucast (pbChainId h), ucast (pbVersion h)] @ pbGenerator h @ pbReference h @
     PutUint64 (pbTimestamp h) @ PutUint64 (pbBaseTarget h) @ pbGenerationSignature h @
     concat (map PutUint32 (pbFeatureVotes h)) @ PutUint64 (pbRewardVote h) @
     pbTransactionsRoot h @ pbStateHash h"

definition fieldsEnv :: "bytes list Env" where
  "fieldsEnv = toyEnv\<lparr>MarshalToProtobufDeterministic := (\<lambda>h. Inr (fieldsEncoding h))\<rparr>"

text \<open>
  \<^verbatim>\<open>unmarshal(marshal(block))\<close> in the binary format: the result of decoding, into the
  zero value of \<^verbatim>\<open>Block\<close>, the bytes that \<^verbatim>\<open>MarshalBinary\<close> produces; \<open>None\<close> when
  marshalling fails. \<^verbatim>\<open>MarshalBinary\<close> returns \<^verbatim>\<open>make([]byte, buf.Len())\<close>, a slice whose
  capacity is its length.
\<close>

definition roundTrip :: "'t Env \<Rightarrow> Block \<Rightarrow> Scheme \<Rightarrow> (Block \<times> error option call) option" where
  "roundTrip env b scheme =
     (case MarshalBinary b scheme of
        Inl err \<Rightarrow> None
      | Inr data \<Rightarrow>
          Some (UnmarshalBinary env emptyBlock \<lparr>contents = data, spare = []\<rparr> scheme))"

definition sampleChallenged :: "PublicKey \<Rightarrow> Signature \<Rightarrow> ChallengedHeader" where
  "sampleChallenged pk sg =
     \<lparr>chTimestamp = 1699999999000,
      chNxtConsensus = \<lparr>BaseTarget = 90, GenSignature = zeroDigest\<rparr>,
      chFeatures = [], chGeneratorPublicKey = pk, chRewardVote = - 1,
      chStateHash = zeroDigest, chBlockSignature = sg\<rparr>"

text \<open>
  A Plain block with 256 transactions of one byte each: 256 entries of 5 bytes, and one
  more byte for the count, give the body length 1281.
\<close>

definition overfullBlock :: Block where
  "overfullBlock =
     (sampleBlock PlainBlockVersion (replicate 256 (rawTx [7])) (replicate 32 1) (replicate 64 2))
       \<lparr>TransactionBlockLength := 1281\<rparr>"







section \<open>Properties\<close>

subsection \<open>Auxiliary facts\<close>












lemma take_halves: "take 32 xs @ drop 32 (take 64 xs) = take 64 xs"
proof -
  have "take 32 (take 64 xs) @ drop 32 (take 64 xs) = take 64 xs"
    by (rule append_take_drop_id)
  then show ?thesis by simp
qed

text \<open>
  A reader that breaks with an error other than the end of the stream: the error is
  returned as it is (the second branch of each error check in the source).
\<close>

lemma ReadFrom_broken_stream:
  assumes "length (dig bid) = DigestSize"
    and "idType bid \<noteq> SignatureID" and "idType bid \<noteq> DigestID"
    and "length (avail r) < 32" and "failure r = ErrExternal k"
  shows "snd (ReadFrom bid r) = (int (length (avail r)), Some (ErrExternal k))"
  using assms
  by (simp add: ReadFrom_def readUndefinedFrom_def LimitReader_def ReadFull_def shortReadError_def endOfStream_def
      SignatureSize_def DigestSize_def Let_def)

lemma endOfStream_simps:
  "endOfStream EOF" "endOfStream ErrUnexpectedEOF"
  by (simp_all add: endOfStream_def)

lemma endOfStream_shortReadError: "endOfStream (shortReadError r) = endOfStream (failure r)"
  by (simp add: shortReadError_def endOfStream_simps)

lemma shortReadError_broken: "\<not> endOfStream (failure r) \<Longrightarrow> shortReadError r = failure r"
  by (auto simp: shortReadError_def endOfStream_simps)

lemma ReadFull_short:
  "length (avail r) < length buf \<Longrightarrow>
   ReadFull r buf = (int (length (avail r)), Some (shortReadError r),
                     avail r @ drop (length (avail r)) buf, r\<lparr>avail := []\<rparr>)"
  by (simp add: ReadFull_def)

lemma ReadFull_enough:
  "length buf \<le> length (avail r) \<Longrightarrow>
   ReadFull r buf = (int (length buf), None, take (length buf) (avail r),
                     r\<lparr>avail := drop (length buf) (avail r)\<rparr>)"
  by (simp add: ReadFull_def)

lemma uint_uint32_of_int:
  "0 \<le> n \<Longrightarrow> n < 2 ^ 32 \<Longrightarrow> uint (word_of_int n :: uint32) = n"
  by (simp add: uint_word_of_int take_bit_int_eq_self)

lemma version_order:
  "(v :: BlockVersion) < NgBlockVersion \<Longrightarrow> v < ProtobufBlockVersion"
  "v \<le> RewardBlockVersion \<Longrightarrow> v < ProtobufBlockVersion"
  "v < NgBlockVersion \<Longrightarrow> \<not> NgBlockVersion \<le> v"
  "v < NgBlockVersion \<Longrightarrow> \<not> RewardBlockVersion \<le> v"
  "v < RewardBlockVersion \<Longrightarrow> v < ProtobufBlockVersion"
  "ProtobufBlockVersion \<le> v \<Longrightarrow> \<not> v < NgBlockVersion"
  "ProtobufBlockVersion \<le> v \<Longrightarrow> \<not> v \<le> RewardBlockVersion"
  "ProtobufBlockVersion \<le> v \<Longrightarrow> \<not> v < ProtobufBlockVersion"
  by (simp_all add: NgBlockVersion_def RewardBlockVersion_def ProtobufBlockVersion_def
      word_less_nat_alt word_le_nat_alt)



subsection \<open>Binary codec: encoding followed by decoding\<close>

lemma length_be_encode [simp]: "length (be_encode n v) = n"
  by (induction n arbitrary: v) simp_all

lemma be_decode_snoc: "be_decode (bs @ [x]) = be_decode bs * 256 + unat x"
  by (simp add: be_decode_def)

lemma be_decode_encode: "be_decode (be_encode n v) = v mod 256 ^ n"
proof (induction n arbitrary: v)
  case 0
  then show ?case by (simp add: be_decode_def)
next
  case (Suc n)
  have "unat (of_nat (v mod 256) :: byte) = v mod 256"
    by (simp add: unat_of_nat)
  with Suc show ?case
    by (simp add: be_decode_snoc mod_mult2_eq)
qed

lemma Uint32_PutUint32 [simp]: "Uint32 (PutUint32 w) = w"
proof -
  have "unat w < 2 ^ 32" using unsigned_less [of w, where ?'a = nat] by simp
  then show ?thesis
    by (simp add: Uint32_def PutUint32_def be_decode_encode)
qed

lemma Uint64_PutUint64 [simp]: "Uint64 (PutUint64 w) = w"
proof -
  have "unat w < 2 ^ 64" using unsigned_less [of w, where ?'a = nat] by simp
  then show ?thesis
    by (simp add: Uint64_def PutUint64_def be_decode_encode)
qed

lemma length_PutUint32 [simp]: "length (PutUint32 w) = 4"
  by (simp add: PutUint32_def)

lemma length_PutUint64 [simp]: "length (PutUint64 w) = 8"
  by (simp add: PutUint64_def)

lemma slice_mid:
  "lo = int (length pre) \<Longrightarrow> hi = lo + int (length mid) \<Longrightarrow>
   go_slice \<lparr>contents = pre @ mid @ post, spare = sp\<rparr> lo hi = Some mid"
  by (simp add: go_slice_def go_cap_def)

lemma slice_last:
  "lo = int (length pre) \<Longrightarrow> hi = lo + int (length mid) \<Longrightarrow>
   go_slice \<lparr>contents = pre @ mid, spare = sp\<rparr> lo hi = Some mid"
  using slice_mid [of lo pre hi mid "[]" sp] by simp

lemma index_head: "go_index (x # xs) 0 = Some x"
  by (simp add: go_index_def)

lemma index_at: "i = int (length pre) \<Longrightarrow> go_index (pre @ x # post) i = Some x"
  by (simp add: go_index_def)


lemma NewBlockIDFromBytes_sig:
  "length P = 64 \<Longrightarrow> NewBlockIDFromBytes P = Inr (NewBlockIDFromSignature P)"
  by (simp add: NewBlockIDFromBytes_def NewBlockIDFromSignature_def emptyBlockID_def
      SignatureSize_def)

lemma go_copy_full: "length dst = length src \<Longrightarrow> go_copy dst src = src"
  by (simp add: go_copy_def)

lemma prefix_slices:
  fixes v :: byte and rest :: bytes and sp :: bytes
  assumes "length T = 8" "length P = 64" "length C = 4" "length B = 8" "length G = 32"
    "length L = 4"
  defines "data \<equiv> \<lparr>contents = v # T @ P @ C @ B @ G @ L @ rest, spare = sp\<rparr>"
  shows "go_index (contents data) 0 = Some v" "go_slice data 1 9 = Some T"
    "go_slice data 9 73 = Some P"
    "go_slice data 73 77 = Some C" "go_slice data 77 85 = Some B" "go_slice data 85 117 = Some G"
    "go_slice data 117 121 = Some L"
proof -
  show "go_index (contents data) 0 = Some v" by (simp add: data_def go_index_def)
  show "go_slice data 1 9 = Some T"
    using slice_mid [of 1 "[v]" 9 T "P @ C @ B @ G @ L @ rest"] assms(1)
    by (simp add: data_def)
  show "go_slice data 9 73 = Some P"
    using slice_mid [of 9 "v # T" 73 P "C @ B @ G @ L @ rest"] assms(1,2)
    by (simp add: data_def)
  show "go_slice data 73 77 = Some C"
    using slice_mid [of 73 "v # T @ P" 77 C "B @ G @ L @ rest"] assms(1-3)
    by (simp add: data_def)
  show "go_slice data 77 85 = Some B"
    using slice_mid [of 77 "v # T @ P @ C" 85 B "G @ L @ rest"] assms(1-4)
    by (simp add: data_def)
  show "go_slice data 85 117 = Some G"
    using slice_mid [of 85 "v # T @ P @ C @ B" 117 G "L @ rest"] assms(1-5)
    by (simp add: data_def)
  show "go_slice data 117 121 = Some L"
    using slice_mid [of 117 "v # T @ P @ C @ B @ G" 121 L rest] assms(1-6)
    by (simp add: data_def)
qed

lemma unmarshalPrefix_ok:
  assumes "v < ProtobufBlockVersion"
    and "length T = 8" "length P = 64" "length C = 4" "length B = 8" "length G = 32"
    "length L = 4"
  shows "unmarshalPrefix \<lparr>contents = v # T @ P @ C @ B @ G @ L @ rest, spare = sp\<rparr> b0 k =
     k (b0\<lparr>Version := v, Timestamp := Uint64 T, Parent := NewBlockIDFromSignature P,
           ConsensusBlockLength := Uint32 C,
           NxtConsensus := \<lparr>BaseTarget = Uint64 B, GenSignature = G\<rparr>,
           TransactionBlockLength := Uint32 L, RewardVote := - 1\<rparr>)"
proof -
  from assms(1) have nv: "\<not> ProtobufBlockVersion \<le> v" by simp
  note sl = prefix_slices [OF assms(2-7), where v = v and rest = rest and sp = sp]
  have nc: "(NxtConsensus b0)\<lparr>BaseTarget := Uint64 B, GenSignature := G\<rparr> =
      \<lparr>BaseTarget = Uint64 B, GenSignature = G\<rparr>"
    by (cases "NxtConsensus b0") simp
  show ?thesis
    unfolding unmarshalPrefix_def
    by (simp add: sl index_head nv Let_def NewBlockIDFromBytes_sig assms go_copy_full
        DigestSize_def nc)
qed


lemma uint_offset:
  fixes w :: uint32
  assumes "uint w = n" and "0 \<le> k + n" and "k + n < 2 ^ 32"
  shows "uint (word_of_int k + w) = k + n"
proof -
  have "w = word_of_int n" using assms(1) by (metis word_of_int_uint)
  then have "word_of_int k + w = (word_of_int (k + n) :: uint32)" by simp
  then show ?thesis using assms(2,3) by (simp only: uint_uint32_of_int)
qed

lemma unmarshalTail_ok:
  assumes "length PK = 32" and "length SG = 64" and "Version b < ProtobufBlockVersion"
  shows "unmarshalTail env \<lparr>contents = X @ PK @ SG, spare = sp\<rparr> s b =
     (b\<lparr>GeneratorPublicKey := PK, BlockSignature := SG, ID := NewBlockIDFromSignature SG\<rparr>,
      Returns None)"
proof -
  let ?data = "\<lparr>contents = X @ PK @ SG, spare = sp\<rparr>"
  have a: "go_slice ?data (go_len ?data - 64 - 32) (go_len ?data - 64) = Some PK"
    using assms(1,2) by (simp add: go_slice_def go_len_def go_cap_def)
  have b: "go_slice ?data (go_len ?data - 64) (go_len ?data) = Some SG"
    using assms(1,2) by (simp add: go_slice_def go_len_def go_cap_def)
  show ?thesis
    unfolding unmarshalTail_def a b using assms(3)
    by (simp add: Let_def GenerateBlockID_def)
qed

lemma decode_plain:
  assumes v: "v < NgBlockVersion"
    and len: "length T = 8" "length P = 64" "length C = 4" "length B = 8" "length G = 32"
      "length PK = 32" "length SG = 64"
    and tbl: "uint tbl = int (length tb) + 1"
    and size: "int (length tb) + 122 < 2 ^ 32"
    and dec: "BytesToTransactions env (uint tc) tb s = Returns (txs', None)"
  shows "UnmarshalBinary env b0
           \<lparr>contents = v # T @ P @ C @ B @ G @ PutUint32 tbl @ [tc] @ tb @ PK @ SG,
            spare = sp\<rparr> s =
     (b0\<lparr>Version := v, Timestamp := Uint64 T, Parent := NewBlockIDFromSignature P,
         ConsensusBlockLength := Uint32 C,
         NxtConsensus := \<lparr>BaseTarget = Uint64 B, GenSignature = G\<rparr>,
         TransactionBlockLength := tbl, RewardVote := - 1,
         TransactionCount := uint tc, Transactions := txs', Features := [],
         GeneratorPublicKey := PK, BlockSignature := SG, ID := NewBlockIDFromSignature SG\<rparr>,
      Returns None)"
proof -
  let ?hdr = "v # T @ P @ C @ B @ G @ PutUint32 tbl"
  define data where "data =
     \<lparr>contents = v # T @ P @ C @ B @ G @ PutUint32 tbl @ [tc] @ tb @ PK @ SG, spare = sp\<rparr>"
  from v have vp: "v < ProtobufBlockVersion" by (rule version_order(1))
  from v have nng: "\<not> NgBlockVersion \<le> v" by (rule version_order(3))
  have hl: "length ?hdr = 121" using len by simp
  have i: "go_index (contents data) 121 = Some tc"
    using index_at [of 121 ?hdr tc "tb @ PK @ SG"] hl by (simp add: data_def)
  have e: "uint ((121 :: uint32) + tbl) = 122 + int (length tb)"
    using uint_offset [OF tbl, of 121] size by simp
  have sl: "go_slice data 122 (122 + int (length tb)) = Some tb"
    using slice_mid [of 122 "?hdr @ [tc]" "122 + int (length tb)" tb "PK @ SG"] hl
    by (simp add: data_def)
  have nz: "tbl \<noteq> 0" using tbl by auto
  have tail: "unmarshalTail env data s b = (b\<lparr>GeneratorPublicKey := PK, BlockSignature := SG,
       ID := NewBlockIDFromSignature SG\<rparr>, Returns None)"
    if "Version b < ProtobufBlockVersion" for b :: Block
    using unmarshalTail_ok [OF len(6,7) that, of env "?hdr @ [tc] @ tb" sp s]
    by (simp add: data_def)
  have p: "unmarshalPrefix data b0 k =
     k (b0\<lparr>Version := v, Timestamp := Uint64 T, Parent := NewBlockIDFromSignature P,
           ConsensusBlockLength := Uint32 C,
           NxtConsensus := \<lparr>BaseTarget = Uint64 B, GenSignature = G\<rparr>,
           TransactionBlockLength := tbl, RewardVote := - 1\<rparr>)" for k
    using unmarshalPrefix_ok [OF vp len(1-5) length_PutUint32, of tbl "[tc] @ tb @ PK @ SG" sp b0 k]
    by (simp add: data_def)
  have "UnmarshalBinary env b0 data s =
     (b0\<lparr>Version := v, Timestamp := Uint64 T, Parent := NewBlockIDFromSignature P,
         ConsensusBlockLength := Uint32 C,
         NxtConsensus := \<lparr>BaseTarget = Uint64 B, GenSignature = G\<rparr>,
         TransactionBlockLength := tbl, RewardVote := - 1,
         TransactionCount := uint tc, Transactions := txs', Features := [],
         GeneratorPublicKey := PK, BlockSignature := SG, ID := NewBlockIDFromSignature SG\<rparr>,
      Returns None)"
    unfolding UnmarshalBinary_def UnmarshalBinary_body_def p unmarshalBlockMiddle_def
    by (simp add: nng nz i e sl dec Let_def tail vp recovered_def)
  then show ?thesis by (simp only: data_def)
qed








lemma MarshalBinary_plain:
  assumes "Version b < NgBlockVersion"
    and "Parent b = NewBlockIDFromSignature ps" and "length ps = 64"
    and "WriteToBinary (Transactions b) s = Inr tb"
  shows "MarshalBinary b s =
     Inr (Version b # PutUint64 (Timestamp b) @ ps @ PutUint32 (ConsensusBlockLength b) @
          PutUint64 (BaseTarget (NxtConsensus b)) @ GenSignature (NxtConsensus b) @
          PutUint32 (TransactionBlockLength b) @ [word_of_int (TransactionCount b)] @ tb @
          GeneratorPublicKey b @ BlockSignature b)"
proof -
  note vo = version_order(1,3) [OF assms(1)]
  from vo(1) have np: "\<not> ProtobufBlockVersion \<le> Version b" by simp
  show ?thesis
    using assms(2-4) vo np
    by (simp add: MarshalBinary_def WriteTo_def WriteToWithoutSignature_def Let_def Bytes_def
        NewBlockIDFromSignature_def SignatureSize_def)
qed



lemma NxtConsensus_eta:
  "\<lparr>BaseTarget = BaseTarget nc, GenSignature = GenSignature nc\<rparr> = nc"
  by (cases nc) simp


lemma roundTrip_plain:
  assumes v: "Version b < NgBlockVersion"
    and parent: "Parent b = NewBlockIDFromSignature ps" "length ps = 64"
    and len: "length (GenSignature (NxtConsensus b)) = 32" "length (GeneratorPublicKey b) = 32"
      "length (BlockSignature b) = 64"
    and tb: "WriteToBinary (Transactions b) s = Inr tb"
    and tbl: "uint (TransactionBlockLength b) = int (length tb) + 1"
    and size: "int (length tb) + 122 < 2 ^ 32"
    and dec: "BytesToTransactions env (uint (word_of_int (TransactionCount b) :: byte)) tb s =
                Returns (txs', None)"
  shows "roundTrip env b s =
     Some (emptyBlock\<lparr>Version := Version b, Timestamp := Timestamp b, Parent := Parent b,
             ConsensusBlockLength := ConsensusBlockLength b, NxtConsensus := NxtConsensus b,
             TransactionBlockLength := TransactionBlockLength b, RewardVote := - 1,
             TransactionCount := uint (word_of_int (TransactionCount b) :: byte),
             Transactions := txs', Features := [],
             GeneratorPublicKey := GeneratorPublicKey b, BlockSignature := BlockSignature b,
             ID := NewBlockIDFromSignature (BlockSignature b)\<rparr>, Returns None)"
proof -
  note m = MarshalBinary_plain [OF v parent tb]
  note d = decode_plain [where T = "PutUint64 (Timestamp b)"
      and C = "PutUint32 (ConsensusBlockLength b)"
      and B = "PutUint64 (BaseTarget (NxtConsensus b))" and ?b0.0 = emptyBlock,
      OF v length_PutUint64 parent(2) length_PutUint32 length_PutUint64 len(1,2,3) tbl size dec]
  show ?thesis
    unfolding roundTrip_def m using d by (simp add: parent(1) NxtConsensus_eta)
qed



lemma be_encode_4:
  "be_encode 4 v = [of_nat (v div 256 div 256 div 256 mod 256), of_nat (v div 256 div 256 mod 256),
                    of_nat (v div 256 mod 256), of_nat (v mod 256)]"
proof -
  have e: "(4::nat) = Suc (Suc (Suc (Suc 0)))" by simp
  show ?thesis unfolding e by simp
qed

lemma PutUint32_small: "PutUint32 1 = [0, 0, 0, 1]" "PutUint32 2 = [0, 0, 0, 2]"
  by (simp_all add: PutUint32_def be_encode_4)

lemma length_concat_replicate: "length (concat (replicate n xs)) = n * length xs"
  by (induction n) simp_all

lemma WriteToBinary_one_byte_txs:
  "WriteToBinary (replicate n (rawTx [7])) s = Inr (concat (replicate n [0, 0, 0, 1, 7]))"
  by (induction n) (simp_all add: rawTx_def PutUint32_small)

text \<open>
  Below version Ng the decoded count is the single count byte, whatever the transaction
  decoder does; for the block with 256 transactions that byte is 0.
\<close>

lemma decode_plain_count:
  assumes v: "v < NgBlockVersion"
    and len: "length T = 8" "length P = 64" "length C = 4" "length B = 8" "length G = 32"
      "length PK = 32" "length SG = 64"
    and tbl: "uint tbl = int (length tb) + 1"
    and size: "int (length tb) + 122 < 2 ^ 32"
    and ret: "UnmarshalBinary env b0
           \<lparr>contents = v # T @ P @ C @ B @ G @ PutUint32 tbl @ [tc] @ tb @ PK @ SG,
            spare = sp\<rparr> s = (b', Returns None)"
  shows "TransactionCount b' = uint tc"
proof -
  let ?hdr = "v # T @ P @ C @ B @ G @ PutUint32 tbl"
  define data where "data =
     \<lparr>contents = v # T @ P @ C @ B @ G @ PutUint32 tbl @ [tc] @ tb @ PK @ SG, spare = sp\<rparr>"
  from v have vp: "v < ProtobufBlockVersion" by (rule version_order(1))
  from v have nng: "\<not> NgBlockVersion \<le> v" by (rule version_order(3))
  have hl: "length ?hdr = 121" using len by simp
  have i: "go_index (contents data) 121 = Some tc"
    using index_at [of 121 ?hdr tc "tb @ PK @ SG"] hl by (simp add: data_def)
  have e: "uint ((121 :: uint32) + tbl) = 122 + int (length tb)"
    using uint_offset [OF tbl, of 121] size by simp
  have sl: "go_slice data 122 (122 + int (length tb)) = Some tb"
    using slice_mid [of 122 "?hdr @ [tc]" "122 + int (length tb)" tb "PK @ SG"] hl
    by (simp add: data_def)
  have nz: "tbl \<noteq> 0" using tbl by auto
  have tail: "unmarshalTail env data s b = (b\<lparr>GeneratorPublicKey := PK, BlockSignature := SG,
       ID := NewBlockIDFromSignature SG\<rparr>, Returns None)"
    if "Version b < ProtobufBlockVersion" for b :: Block
    using unmarshalTail_ok [OF len(6,7) that, of env "?hdr @ [tc] @ tb" sp s]
    by (simp add: data_def)
  have p: "unmarshalPrefix data b0 k =
     k (b0\<lparr>Version := v, Timestamp := Uint64 T, Parent := NewBlockIDFromSignature P,
           ConsensusBlockLength := Uint32 C,
           NxtConsensus := \<lparr>BaseTarget = Uint64 B, GenSignature = G\<rparr>,
           TransactionBlockLength := tbl, RewardVote := - 1\<rparr>)" for k
    using unmarshalPrefix_ok [OF vp len(1-5) length_PutUint32, of tbl "[tc] @ tb @ PK @ SG" sp b0 k]
    by (simp add: data_def)
  from ret have "UnmarshalBinary env b0 data s = (b', Returns None)" by (simp only: data_def)
  then show ?thesis
    unfolding UnmarshalBinary_def UnmarshalBinary_body_def p unmarshalBlockMiddle_def
    by (auto simp: nng nz i e sl Let_def tail vp recovered_def
        split: call.splits prod.splits option.splits)
qed

lemma overfullBlock_any_decoder:
  assumes "roundTrip env overfullBlock 87 = Some (b', Returns None)"
  shows "TransactionCount b' = 0" and "TransactionCount overfullBlock = 256"
proof -
  let ?b = overfullBlock
  let ?tb = "concat (replicate 256 [0, 0, 0, 1, 7]) :: bytes"
  have f: "Version ?b = PlainBlockVersion"
    "Parent ?b = NewBlockIDFromSignature (replicate 64 3)"
    "length (GenSignature (NxtConsensus ?b)) = 32"
    "TransactionCount ?b = 256" "TransactionBlockLength ?b = 1281"
    "length (GeneratorPublicKey ?b) = 32" "length (BlockSignature ?b) = 64"
    "Transactions ?b = replicate 256 (rawTx [7])"
    by (simp_all add: overfullBlock_def sampleBlock_def emptyBlock_def zeroDigest_def
        DigestSize_def SignatureSize_def)
  show "TransactionCount ?b = 256" by (rule f(4))
  have v: "Version ?b < NgBlockVersion"
    by (simp add: f(1) PlainBlockVersion_def NgBlockVersion_def)
  have tb: "WriteToBinary (Transactions ?b) 87 = Inr ?tb"
    unfolding f(8) by (rule WriteToBinary_one_byte_txs)
  have l: "length ?tb = 1280" by (simp add: length_concat_replicate)
  have tbl: "uint (TransactionBlockLength ?b) = int (length ?tb) + 1"
    by (simp add: f(5) l)
  have size: "int (length ?tb) + 122 < 2 ^ 32" by (simp add: l)
  have ps: "length (replicate 64 (3 :: byte)) = 64" by simp
  note m = MarshalBinary_plain [OF v f(2) ps tb]
  from assms have "UnmarshalBinary env emptyBlock
     \<lparr>contents =
        Version ?b # PutUint64 (Timestamp ?b) @ replicate 64 3 @
          PutUint32 (ConsensusBlockLength ?b) @
          PutUint64 (BaseTarget (NxtConsensus ?b)) @ GenSignature (NxtConsensus ?b) @
          PutUint32 (TransactionBlockLength ?b) @ [word_of_int (TransactionCount ?b)] @ ?tb @
          GeneratorPublicKey ?b @ BlockSignature ?b,
      spare = []\<rparr> 87 = (b', Returns None)"
    unfolding roundTrip_def m by simp
  from decode_plain_count [OF v length_PutUint64 ps length_PutUint32 length_PutUint64
      f(3) f(6) f(7) tbl size this]
  show "TransactionCount b' = 0" by (simp add: f(4))
qed

subsection \<open>Round trips: protobuf path, and fields the binary layout does not hold\<close>















lemma sampleBlock_shape:
  "Parent (sampleBlock v txs pk sg) = NewBlockIDFromSignature (replicate 64 3)"
  "length (GenSignature (NxtConsensus (sampleBlock v txs pk sg))) = 32"
  "Version (sampleBlock v txs pk sg) = v" "Transactions (sampleBlock v txs pk sg) = txs"
  "TransactionCount (sampleBlock v txs pk sg) = int (length txs)"
  "GeneratorPublicKey (sampleBlock v txs pk sg) = pk" "BlockSignature (sampleBlock v txs pk sg) = sg"
  "Features (sampleBlock v txs pk sg) = []" "FeaturesCount (sampleBlock v txs pk sg) = 0"
  by (simp_all add: sampleBlock_def emptyBlock_def zeroDigest_def DigestSize_def SignatureSize_def)

lemma versions_distinct:
  "PlainBlockVersion < NgBlockVersion" "NgBlockVersion \<le> NgBlockVersion"
  "NgBlockVersion < ProtobufBlockVersion" "NgBlockVersion \<le> RewardBlockVersion"
  "RewardBlockVersion < ProtobufBlockVersion" "\<not> RewardBlockVersion \<le> NgBlockVersion"
  by (simp_all add: PlainBlockVersion_def NgBlockVersion_def RewardBlockVersion_def
      ProtobufBlockVersion_def)





text \<open>
  The decoded transactions are what the transaction decoder returns: with a decoder that
  returns no transactions, a block with one transaction decodes without it.
\<close>

lemma roundTrip_needs_decoder:
  "roundTrip (toyEnv\<lparr>BytesToTransactions := (\<lambda>count data scheme. Returns ([], None))\<rparr>)
     ((sampleBlock PlainBlockVersion [rawTx [9]] (replicate 32 1) (replicate 64 2))
        \<lparr>TransactionBlockLength := 6\<rparr>) 87 =
   Some ((sampleBlock PlainBlockVersion [rawTx [9]] (replicate 32 1) (replicate 64 2))
           \<lparr>TransactionBlockLength := 6, Transactions := [],
            ID := NewBlockIDFromSignature (replicate 64 2)\<rparr>, Returns None)"
proof -
  let ?env = "toyEnv\<lparr>BytesToTransactions := (\<lambda>count data scheme. Returns ([], None))\<rparr>"
  let ?b = "(sampleBlock PlainBlockVersion [rawTx [9]] (replicate 32 1) (replicate 64 2))
        \<lparr>TransactionBlockLength := 6\<rparr>"
  let ?tb = "[0, 0, 0, 1, 9] :: bytes"
  have v: "Version ?b < NgBlockVersion" by (simp add: sampleBlock_shape versions_distinct)
  have p: "Parent ?b = NewBlockIDFromSignature (replicate 64 3)" by (simp add: sampleBlock_shape)
  have ps: "length (replicate 64 (3 :: byte)) = 64" by simp
  have l: "length (GenSignature (NxtConsensus ?b)) = 32" "length (GeneratorPublicKey ?b) = 32"
    "length (BlockSignature ?b) = 64"
    by (simp_all add: sampleBlock_shape)
  have tb: "WriteToBinary (Transactions ?b) 87 = Inr ?tb"
    by (simp add: sampleBlock_shape rawTx_def PutUint32_small)
  have tbl: "uint (TransactionBlockLength ?b) = int (length ?tb) + 1" by simp
  have size: "int (length ?tb) + 122 < 2 ^ 32" by simp
  have dec: "BytesToTransactions ?env (uint (word_of_int (TransactionCount ?b) :: byte)) ?tb 87 =
      Returns ([], None)" by simp
  from roundTrip_plain [OF v p ps l tb tbl size dec] show ?thesis
    by (simp add: sampleBlock_def emptyBlock_def)
qed



subsection \<open>Panics and their recovery\<close>

lemma recovered_never_panics: "\<exists>b' err. recovered r = (b', Returns err)"
  by (cases r) (auto simp: recovered_def split: call.splits)

lemma recovered_panic:
  "snd r = Panics \<Longrightarrow> snd (recovered r) = Returns (Some (ErrorNew ''invalid data size''))"
  by (cases r) (simp add: recovered_def)

lemma unmarshalPrefix_empty:
  "contents data = [] \<Longrightarrow> snd (unmarshalPrefix data b k) = Panics"
  by (simp add: unmarshalPrefix_def go_index_def)

lemma unmarshalPrefix_short:
  assumes "go_cap data < 121" and "contents data = [] \<or> hd (contents data) < ProtobufBlockVersion"
  shows "snd (unmarshalPrefix data b k) = Panics"
proof (cases "contents data")
  case Nil
  then show ?thesis by (rule unmarshalPrefix_empty)
next
  case (Cons v rest)
  with assms(2) have v: "\<not> ProtobufBlockVersion \<le> v" by simp
  have i: "go_index (contents data) 0 = Some v" using Cons by (simp add: go_index_def)
  let ?all = "contents data @ spare data"
  have p: "NewBlockIDFromBytes (take 64 (drop 9 ?all)) =
      Inr (NewBlockIDFromSignature (take 64 (drop 9 ?all)))"
    if "73 \<le> length ?all"
    using that by (simp add: NewBlockIDFromBytes_sig)
  show ?thesis
    using assms(1) v p
    by (simp add: unmarshalPrefix_def i go_slice_def go_cap_def Let_def)
qed

lemma be_decode_zeros: "be_decode (replicate n 0) = 0"
proof (induction n)
  case 0
  show ?case by (simp add: be_decode_def)
next
  case (Suc n)
  have "replicate (Suc n) (0 :: byte) = replicate n 0 @ [0]"
    by (simp add: replicate_append_same)
  with Suc show ?case by (simp only: be_decode_snoc) simp
qed

lemma be_decode_4: "be_decode [0, 0, 0, 4] = 4"
  by (simp add: be_decode_def)

text \<open>
  A slice expression reaches into the spare capacity. An input of 100 bytes (version Ng,
  all other bytes zero) that is the head of a buffer of 129 bytes is decoded without
  panic: the body length, the counts and part of the generation signature are read from
  the buffer beyond the input, the key and the signature from the last 96 bytes of the
  input.
\<close>

lemma UnmarshalBinary_spare_capacity:
  "UnmarshalBinary toyEnv emptyBlock
     \<lparr>contents = 3 # replicate 99 0, spare = replicate 17 0 @ [0, 0, 0, 4] @ replicate 8 0\<rparr> 87 =
   ((sampleBlock 3 [] (replicate 32 0) (replicate 64 0))
      \<lparr>Timestamp := 0, Parent := NewBlockIDFromSignature (replicate 64 0),
       ConsensusBlockLength := 0, NxtConsensus := \<lparr>BaseTarget = 0, GenSignature = replicate 32 0\<rparr>,
       TransactionBlockLength := 4, ID := NewBlockIDFromSignature (replicate 64 0)\<rparr>, Returns None)"
  by (simp add: UnmarshalBinary_def UnmarshalBinary_body_def unmarshalPrefix_def
      unmarshalBlockMiddle_def unmarshalTail_def go_slice_def go_index_def go_cap_def go_len_def
      Let_def recovered_def ProtobufBlockVersion_def NgBlockVersion_def RewardBlockVersion_def
      Uint64_def Uint32_def be_decode_zeros be_decode_4 NewBlockIDFromBytes_def SignatureSize_def
      DigestSize_def emptyBlockID_def NewBlockIDFromSignature_def go_copy_def toyEnv_def
      BytesToTransactions_spec_def featuresFromBinary_def GenerateBlockID_def sampleBlock_def
      emptyBlock_def zeroDigest_def zeroSignature_def PublicKeySize_def replicate_add [symmetric])

subsection \<open>Claims\<close>

text \<open>
  C6. \<open>IsValid\<close> holds exactly when the version is at least Protobuf and the identifier
  is the Digest variant, or the version is below Protobuf and the identifier is the
  Signature variant. An identifier with neither variant set, in particular the zero value,
  is valid for no version.
\<close>

theorem C6_IsValid_iff:
  "(IsValid bid v \<longleftrightarrow>
      (v \<ge> ProtobufBlockVersion \<and> idType bid = DigestID) \<or>
      (v < ProtobufBlockVersion \<and> idType bid = SignatureID))
   \<and> ((idType bid \<noteq> SignatureID \<and> idType bid \<noteq> DigestID) \<longrightarrow> \<not> IsValid bid v)
   \<and> \<not> IsValid emptyBlockID v"
  by (auto simp: IsValid_def emptyBlockID_def SignatureID_def DigestID_def)

theorem C6_IsValid_iff_witness:
  "IsValid (NewBlockIDFromDigest zeroDigest) 5 \<and> \<not> IsValid (NewBlockIDFromDigest zeroDigest) 4
   \<and> \<not> IsValid emptyBlockID 3"
  using C6_IsValid_iff [of "NewBlockIDFromDigest zeroDigest" 5]
        C6_IsValid_iff [of "NewBlockIDFromDigest zeroDigest" 4]
        C6_IsValid_iff [of emptyBlockID 3]
  by (simp add: NewBlockIDFromDigest_def emptyBlockID_def ProtobufBlockVersion_def
      DigestID_def SignatureID_def)

text \<open>
  C10. For a header of version below Protobuf the accessor ignores the cached \<^verbatim>\<open>ID\<close>
  and returns the Signature variant built from \<^verbatim>\<open>BlockSignature\<close>. For a version of at
  least Protobuf it returns the cached \<^verbatim>\<open>ID\<close> as it is; when that field still holds the
  zero value, the result is the uninitialized identifier, valid for no version.
\<close>

theorem C10_BlockID_accessor:
  "(Version h < ProtobufBlockVersion \<longrightarrow>
      BlockID_of h = NewBlockIDFromSignature (BlockSignature h)
      \<and> BlockID_of (h\<lparr>ID := other\<rparr>) = BlockID_of h)
   \<and> (Version h \<ge> ProtobufBlockVersion \<longrightarrow> BlockID_of h = ID h)
   \<and> (Version h \<ge> ProtobufBlockVersion \<and> ID h = emptyBlockID \<longrightarrow>
        BlockID_of h = emptyBlockID \<and> (\<forall>v. \<not> IsValid (BlockID_of h) v))"
  by (auto simp: BlockID_of_def IsValid_def emptyBlockID_def SignatureID_def DigestID_def)

theorem C10_BlockID_accessor_witness:
  "BlockID_of (sampleBlock 2 [] (replicate 32 1) (replicate 64 2)) =
     NewBlockIDFromSignature (replicate 64 2)
   \<and> BlockID_of (sampleBlock 5 [] (replicate 32 1) (replicate 64 2)) = emptyBlockID
   \<and> \<not> IsValid (BlockID_of (sampleBlock 5 [] (replicate 32 1) (replicate 64 2))) 5"
proof -
  let ?old = "sampleBlock 2 [] (replicate 32 1) (replicate 64 2)"
  let ?new = "sampleBlock 5 [] (replicate 32 1) (replicate 64 2)"
  have old: "Version ?old < ProtobufBlockVersion" "BlockSignature ?old = replicate 64 2"
    by (simp_all add: sampleBlock_def ProtobufBlockVersion_def)
  have new: "Version ?new \<ge> ProtobufBlockVersion" "ID ?new = emptyBlockID"
    by (simp_all add: sampleBlock_def emptyBlock_def ProtobufBlockVersion_def)
  from C10_BlockID_accessor [of ?old emptyBlockID] old
  have "BlockID_of ?old = NewBlockIDFromSignature (replicate 64 2)" by simp
  moreover from C10_BlockID_accessor [of ?new emptyBlockID] new
  have "BlockID_of ?new = emptyBlockID \<and> \<not> IsValid (BlockID_of ?new) 5" by blast
  ultimately show ?thesis by blast
qed

text \<open>
  C5. For a header \<open>h\<close> that carries a challenged header \<open>ch\<close>, \<open>origHeader\<close> returns
  \<open>h\<close> with Timestamp, NxtConsensus (base target and generation signature), Features,
  GeneratorPublicKey, RewardVote, StateHash and BlockSignature taken from \<open>ch\<close> and the
  challenged header cleared; Version, Parent, FeaturesCount, ConsensusBlockLength,
  TransactionBlockLength, TransactionCount, TransactionsRoot, ID and, for a block, the
  transactions are those of \<open>h\<close>. The result is a new value: the function has no
  assignment through its receiver, so \<open>h\<close> is the same value after the call.
\<close>

theorem C5_origHeader_frame:
  "ChallengedHeader h = Some ch \<Longrightarrow>
     origHeader h =
       (h\<lparr>Timestamp := chTimestamp ch, NxtConsensus := chNxtConsensus ch,
          Features := chFeatures ch, GeneratorPublicKey := chGeneratorPublicKey ch,
          RewardVote := chRewardVote ch, StateHash := Some (chStateHash ch),
          BlockSignature := chBlockSignature ch, ChallengedHeader := None\<rparr>, True)
     \<and> (let h' = fst (origHeader h) in
          Timestamp h' = chTimestamp ch \<and> NxtConsensus h' = chNxtConsensus ch
        \<and> BaseTarget (NxtConsensus h') = BaseTarget (chNxtConsensus ch)
        \<and> GenSignature (NxtConsensus h') = GenSignature (chNxtConsensus ch)
        \<and> Features h' = chFeatures ch \<and> GeneratorPublicKey h' = chGeneratorPublicKey ch
        \<and> RewardVote h' = chRewardVote ch \<and> StateHash h' = Some (chStateHash ch)
        \<and> BlockSignature h' = chBlockSignature ch \<and> ChallengedHeader h' = None
        \<and> Version h' = Version h \<and> Parent h' = Parent h \<and> FeaturesCount h' = FeaturesCount h
        \<and> ConsensusBlockLength h' = ConsensusBlockLength h
        \<and> TransactionBlockLength h' = TransactionBlockLength h
        \<and> TransactionCount h' = TransactionCount h \<and> TransactionsRoot h' = TransactionsRoot h
        \<and> ID h' = ID h \<and> BlockHeader.more h' = BlockHeader.more h)"
  by (simp add: origHeader_def Let_def)

theorem C5_origHeader_frame_witness:
  "origHeader ((sampleBlock 5 [] (replicate 32 1) (replicate 64 2))
       \<lparr>ChallengedHeader := Some (sampleChallenged (replicate 32 4) (replicate 64 5))\<rparr>) =
     ((sampleBlock 5 [] (replicate 32 4) (replicate 64 5))
        \<lparr>Timestamp := 1699999999000, NxtConsensus := \<lparr>BaseTarget = 90, GenSignature = zeroDigest\<rparr>,
         StateHash := Some zeroDigest\<rparr>, True)"
  using C5_origHeader_frame [of "(sampleBlock 5 [] (replicate 32 1) (replicate 64 2))
       \<lparr>ChallengedHeader := Some (sampleChallenged (replicate 32 4) (replicate 64 5))\<rparr>"
       "sampleChallenged (replicate 32 4) (replicate 64 5)"]
  by (simp add: sampleBlock_def sampleChallenged_def emptyBlock_def)

text \<open>
  C3. For a version below Protobuf, \<open>GenerateBlockID\<close> sets the ID to the Signature
  variant of the block signature, with no hashing. For a version of at least Protobuf the
  bytes of \<open>MarshalHeaderToProtobufWithoutSignature\<close> are the deterministic protobuf
  encoding of the header message whose fields are the chain id, the bytes of the parent
  ID, base target, generation signature, feature votes (sign-extended to 32 bits),
  timestamp, version, generator key, reward vote, transactions root, state hash (empty
  when absent) and the challenged header's message (absent when there is none); the
  message has no signature field. \<open>GenerateBlockID\<close> sets the ID to the Digest variant
  of the fast hash of these bytes, and returns the error of the encoder, of the hash or of
  the challenged header's signature when one of them fails, leaving the ID as it was. The
  encoding does not depend on the block signature, and the resulting ID does not depend on
  the transactions of the block.
\<close>

theorem C3_GenerateBlockID:
  "(Version h < ProtobufBlockVersion \<longrightarrow>
      GenerateBlockID env h s = (h\<lparr>ID := NewBlockIDFromSignature (BlockSignature h)\<rparr>, None))
   \<and> (Version h \<ge> ProtobufBlockVersion \<longrightarrow>
        (let message = (\<lambda>challenged.
               \<lparr>pbChainId = ucast s,
                pbReference = Bytes (Parent h),
                pbBaseTarget = BaseTarget (NxtConsensus h),
                pbGenerationSignature = GenSignature (NxtConsensus h),
                pbFeatureVotes = map (\<lambda>f. word_of_int (sint f)) (Features h),
                pbTimestamp = Timestamp h,
                pbVersion = ucast (Version h),
                pbGenerator = GeneratorPublicKey h,
                pbRewardVote = RewardVote h,
                pbTransactionsRoot = TransactionsRoot h,
                pbStateHash = (case StateHash h of None \<Rightarrow> [] | Some sh \<Rightarrow> sh),
                pbChallengedHeader = challenged\<rparr>);
             hashed = (\<lambda>m.
               case MarshalToProtobufDeterministic env m of
                 Inl err \<Rightarrow> (h, Some err)
               | Inr headerBytes \<Rightarrow>
                   (case crypto_FastHash env headerBytes of
                      Inl err \<Rightarrow> (h, Some err)
                    | Inr d \<Rightarrow> (h\<lparr>ID := NewBlockIDFromDigest d\<rparr>, None)))
         in
           (ChallengedHeader h = None \<longrightarrow>
              MarshalHeaderToProtobufWithoutSignature env h s =
                MarshalToProtobufDeterministic env (message None)
            \<and> GenerateBlockID env h s = hashed (message None))
         \<and> (\<forall>ch hs. ChallengedHeader h = Some ch \<and>
                Signature_MarshalBinary env (chBlockSignature ch) = Inr hs \<longrightarrow>
              (let challenged =
                     \<lparr>pbchBaseTarget = BaseTarget (chNxtConsensus ch),
                      pbchGenerationSignature = GenSignature (chNxtConsensus ch),
                      pbchFeatureVotes = map (\<lambda>f. word_of_int (sint f)) (chFeatures ch),
                      pbchTimestamp = chTimestamp ch,
                      pbchGenerator = chGeneratorPublicKey ch,
                      pbchRewardVote = chRewardVote ch,
                      pbchStateHash = chStateHash ch,
                      pbchHeaderSignature = hs\<rparr>
               in MarshalHeaderToProtobufWithoutSignature env h s =
                    MarshalToProtobufDeterministic env (message (Some challenged))
                \<and> GenerateBlockID env h s = hashed (message (Some challenged))))
         \<and> (\<forall>ch err. ChallengedHeader h = Some ch \<and>
                Signature_MarshalBinary env (chBlockSignature ch) = Inl err \<longrightarrow>
              GenerateBlockID env h s = (h, Some err)))
      \<and> (\<forall>hb d. MarshalHeaderToProtobufWithoutSignature env h s = Inr hb \<and>
                 crypto_FastHash env hb = Inr d \<longrightarrow>
           GenerateBlockID env h s = (h\<lparr>ID := NewBlockIDFromDigest d\<rparr>, None))
      \<and> MarshalHeaderToProtobufWithoutSignature env (h\<lparr>BlockSignature := sg\<rparr>) s =
          MarshalHeaderToProtobufWithoutSignature env h s)
   \<and> (Version b \<ge> ProtobufBlockVersion \<longrightarrow>
        ID (fst (GenerateBlockID env (b\<lparr>Transactions := txs\<rparr>) s)) =
          ID (fst (GenerateBlockID env (b :: Block) s))
      \<and> snd (GenerateBlockID env (b\<lparr>Transactions := txs\<rparr>) s) = snd (GenerateBlockID env b s))"
proof (intro conjI impI)
  assume "Version h < ProtobufBlockVersion"
  then show "GenerateBlockID env h s = (h\<lparr>ID := NewBlockIDFromSignature (BlockSignature h)\<rparr>, None)"
    by (simp add: GenerateBlockID_def)
next
  assume v: "ProtobufBlockVersion \<le> Version h"
  then have nv: "\<not> Version h < ProtobufBlockVersion" by simp
  show "MarshalHeaderToProtobufWithoutSignature env (h\<lparr>BlockSignature := sg\<rparr>) s =
          MarshalHeaderToProtobufWithoutSignature env h s"
    by (simp add: MarshalHeaderToProtobufWithoutSignature_def HeaderToProtobufHeader_def
        split: sum.splits option.splits)
  show "\<forall>hb d. MarshalHeaderToProtobufWithoutSignature env h s = Inr hb \<and>
                 crypto_FastHash env hb = Inr d \<longrightarrow>
           GenerateBlockID env h s = (h\<lparr>ID := NewBlockIDFromDigest d\<rparr>, None)"
    using nv by (simp add: GenerateBlockID_def)
  show "let message = (\<lambda>challenged.
               \<lparr>pbChainId = ucast s,
                pbReference = Bytes (Parent h),
                pbBaseTarget = BaseTarget (NxtConsensus h),
                pbGenerationSignature = GenSignature (NxtConsensus h),
                pbFeatureVotes = map (\<lambda>f. word_of_int (sint f)) (Features h),
                pbTimestamp = Timestamp h,
                pbVersion = ucast (Version h),
                pbGenerator = GeneratorPublicKey h,
                pbRewardVote = RewardVote h,
                pbTransactionsRoot = TransactionsRoot h,
                pbStateHash = (case StateHash h of None \<Rightarrow> [] | Some sh \<Rightarrow> sh),
                pbChallengedHeader = challenged\<rparr>);
             hashed = (\<lambda>m.
               case MarshalToProtobufDeterministic env m of
                 Inl err \<Rightarrow> (h, Some err)
               | Inr headerBytes \<Rightarrow>
                   (case crypto_FastHash env headerBytes of
                      Inl err \<Rightarrow> (h, Some err)
                    | Inr d \<Rightarrow> (h\<lparr>ID := NewBlockIDFromDigest d\<rparr>, None)))
         in
           (ChallengedHeader h = None \<longrightarrow>
              MarshalHeaderToProtobufWithoutSignature env h s =
                MarshalToProtobufDeterministic env (message None)
            \<and> GenerateBlockID env h s = hashed (message None))
         \<and> (\<forall>ch hs. ChallengedHeader h = Some ch \<and>
                Signature_MarshalBinary env (chBlockSignature ch) = Inr hs \<longrightarrow>
              (let challenged =
                     \<lparr>pbchBaseTarget = BaseTarget (chNxtConsensus ch),
                      pbchGenerationSignature = GenSignature (chNxtConsensus ch),
                      pbchFeatureVotes = map (\<lambda>f. word_of_int (sint f)) (chFeatures ch),
                      pbchTimestamp = chTimestamp ch,
                      pbchGenerator = chGeneratorPublicKey ch,
                      pbchRewardVote = chRewardVote ch,
                      pbchStateHash = chStateHash ch,
                      pbchHeaderSignature = hs\<rparr>
               in MarshalHeaderToProtobufWithoutSignature env h s =
                    MarshalToProtobufDeterministic env (message (Some challenged))
                \<and> GenerateBlockID env h s = hashed (message (Some challenged))))
         \<and> (\<forall>ch err. ChallengedHeader h = Some ch \<and>
                Signature_MarshalBinary env (chBlockSignature ch) = Inl err \<longrightarrow>
              GenerateBlockID env h s = (h, Some err))"
    using nv
    by (simp add: GenerateBlockID_def MarshalHeaderToProtobufWithoutSignature_def
        HeaderToProtobufHeader_def ToProtobuf_def int16SliceToUint32_def Let_def)
next
  assume v: "ProtobufBlockVersion \<le> Version b"
  then have nv: "\<not> Version b < ProtobufBlockVersion" by simp
  have m: "MarshalHeaderToProtobufWithoutSignature env (b\<lparr>Transactions := txs\<rparr>) s =
      MarshalHeaderToProtobufWithoutSignature env b s"
    by (simp add: MarshalHeaderToProtobufWithoutSignature_def HeaderToProtobufHeader_def
        split: sum.splits option.splits)
  show "ID (fst (GenerateBlockID env (b\<lparr>Transactions := txs\<rparr>) s)) =
          ID (fst (GenerateBlockID env b s))"
    and "snd (GenerateBlockID env (b\<lparr>Transactions := txs\<rparr>) s) = snd (GenerateBlockID env b s)"
    using nv by (simp_all add: GenerateBlockID_def m split: sum.splits)
qed

theorem C3_GenerateBlockID_witness:
  "GenerateBlockID fieldsEnv (sampleBlock 2 [] (replicate 32 1) (replicate 64 2)) 87 =
     ((sampleBlock 2 [] (replicate 32 1) (replicate 64 2))
        \<lparr>ID := NewBlockIDFromSignature (replicate 64 2)\<rparr>, None)
   \<and> GenerateBlockID fieldsEnv (sampleBlock 5 [] (replicate 32 1) (replicate 64 2)) 87 =
     ((sampleBlock 5 [] (replicate 32 1) (replicate 64 2))
        \<lparr>ID := NewBlockIDFromDigest ([0, 87, 5] @ replicate 29 1)\<rparr>, None)
   \<and> GenerateBlockID fieldsEnv
       ((sampleBlock 5 [] (replicate 32 1) (replicate 64 2))
          \<lparr>ChallengedHeader := Some (sampleChallenged (replicate 32 4) (replicate 64 5))\<rparr>) 87 =
     ((sampleBlock 5 [] (replicate 32 1) (replicate 64 2))
        \<lparr>ChallengedHeader := Some (sampleChallenged (replicate 32 4) (replicate 64 5)),
         ID := NewBlockIDFromDigest (1 # replicate 31 5)\<rparr>, None)
   \<and> ID (fst (GenerateBlockID fieldsEnv
        ((sampleBlock 5 [] (replicate 32 1) (replicate 64 2))\<lparr>Transactions := [rawTx [7]]\<rparr>) 87)) =
      ID (fst (GenerateBlockID fieldsEnv (sampleBlock 5 [] (replicate 32 1) (replicate 64 2)) 87))"
proof -
  let ?old = "sampleBlock 2 [] (replicate 32 1) (replicate 64 2)"
  let ?new = "sampleBlock 5 [] (replicate 32 1) (replicate 64 2)"
  let ?ch = "sampleChallenged (replicate 32 4) (replicate 64 5)"
  let ?chd = "?new\<lparr>ChallengedHeader := Some ?ch\<rparr>"
  have old: "Version ?old < ProtobufBlockVersion" "BlockSignature ?old = replicate 64 2"
    by (simp_all add: sampleBlock_def ProtobufBlockVersion_def)
  have new: "Version ?new \<ge> ProtobufBlockVersion" "ChallengedHeader ?new = None"
    by (simp_all add: sampleBlock_def emptyBlock_def ProtobufBlockVersion_def)
  have chd: "Version ?chd \<ge> ProtobufBlockVersion"
    "ChallengedHeader ?chd = Some ?ch \<and>
     Signature_MarshalBinary fieldsEnv (chBlockSignature ?ch) = Inr (replicate 64 5)"
    by (simp_all add: sampleBlock_def sampleChallenged_def ProtobufBlockVersion_def fieldsEnv_def
        toyEnv_def)
  have f: "Version ?new = 5" "GeneratorPublicKey ?new = replicate 32 1"
    by (simp_all add: sampleBlock_def)
  have h: "crypto_FastHash fieldsEnv ([0, 87, 5] @ replicate 32 1 @ rest) =
      Inr ([0, 87, 5] @ replicate 29 1)"
    "crypto_FastHash fieldsEnv (1 # replicate 64 5 @ rest) = Inr (1 # replicate 31 5)" for rest
    by (simp_all add: fieldsEnv_def toyEnv_def DigestSize_def)
  from C3_GenerateBlockID [of ?old fieldsEnv 87 "[]" ?new "[rawTx [7]]"] old
  have a: "GenerateBlockID fieldsEnv ?old 87 =
      (?old\<lparr>ID := NewBlockIDFromSignature (replicate 64 2)\<rparr>, None)"
    by simp
  from C3_GenerateBlockID [of ?new fieldsEnv 87 "[]" ?new "[rawTx [7]]"] new
  have "GenerateBlockID fieldsEnv ?new 87 =
      (case MarshalToProtobufDeterministic fieldsEnv
               \<lparr>pbChainId = ucast (87 :: byte),
                pbReference = Bytes (Parent ?new),
                pbBaseTarget = BaseTarget (NxtConsensus ?new),
                pbGenerationSignature = GenSignature (NxtConsensus ?new),
                pbFeatureVotes = map (\<lambda>f. word_of_int (sint f)) (Features ?new),
                pbTimestamp = Timestamp ?new,
                pbVersion = ucast (Version ?new),
                pbGenerator = GeneratorPublicKey ?new,
                pbRewardVote = RewardVote ?new,
                pbTransactionsRoot = TransactionsRoot ?new,
                pbStateHash = (case StateHash ?new of None \<Rightarrow> [] | Some sh \<Rightarrow> sh),
                pbChallengedHeader = None\<rparr> of
                 Inl err \<Rightarrow> (?new, Some err)
               | Inr headerBytes \<Rightarrow>
                   (case crypto_FastHash fieldsEnv headerBytes of
                      Inl err \<Rightarrow> (?new, Some err)
                    | Inr d \<Rightarrow> (?new\<lparr>ID := NewBlockIDFromDigest d\<rparr>, None)))
     \<and> ID (fst (GenerateBlockID fieldsEnv (?new\<lparr>Transactions := [rawTx [7]]\<rparr>) 87)) =
      ID (fst (GenerateBlockID fieldsEnv ?new 87))"
    unfolding Let_def by blast
  then have b: "GenerateBlockID fieldsEnv ?new 87 =
      (?new\<lparr>ID := NewBlockIDFromDigest ([0, 87, 5] @ replicate 29 1)\<rparr>, None)"
    and c: "ID (fst (GenerateBlockID fieldsEnv (?new\<lparr>Transactions := [rawTx [7]]\<rparr>) 87)) =
      ID (fst (GenerateBlockID fieldsEnv ?new 87))"
    using h by (simp_all add: fieldsEnv_def fieldsEncoding_def f)
  from C3_GenerateBlockID [of ?chd fieldsEnv 87 "[]" ?new "[rawTx [7]]"] chd
  have "GenerateBlockID fieldsEnv ?chd 87 =
      (case MarshalToProtobufDeterministic fieldsEnv
               \<lparr>pbChainId = ucast (87 :: byte),
                pbReference = Bytes (Parent ?chd),
                pbBaseTarget = BaseTarget (NxtConsensus ?chd),
                pbGenerationSignature = GenSignature (NxtConsensus ?chd),
                pbFeatureVotes = map (\<lambda>f. word_of_int (sint f)) (Features ?chd),
                pbTimestamp = Timestamp ?chd,
                pbVersion = ucast (Version ?chd),
                pbGenerator = GeneratorPublicKey ?chd,
                pbRewardVote = RewardVote ?chd,
                pbTransactionsRoot = TransactionsRoot ?chd,
                pbStateHash = (case StateHash ?chd of None \<Rightarrow> [] | Some sh \<Rightarrow> sh),
                pbChallengedHeader = Some
                     \<lparr>pbchBaseTarget = BaseTarget (chNxtConsensus ?ch),
                      pbchGenerationSignature = GenSignature (chNxtConsensus ?ch),
                      pbchFeatureVotes = map (\<lambda>f. word_of_int (sint f)) (chFeatures ?ch),
                      pbchTimestamp = chTimestamp ?ch,
                      pbchGenerator = chGeneratorPublicKey ?ch,
                      pbchRewardVote = chRewardVote ?ch,
                      pbchStateHash = chStateHash ?ch,
                      pbchHeaderSignature = replicate 64 5\<rparr>\<rparr> of
                 Inl err \<Rightarrow> (?chd, Some err)
               | Inr headerBytes \<Rightarrow>
                   (case crypto_FastHash fieldsEnv headerBytes of
                      Inl err \<Rightarrow> (?chd, Some err)
                    | Inr d \<Rightarrow> (?chd\<lparr>ID := NewBlockIDFromDigest d\<rparr>, None)))"
    unfolding Let_def by blast
  then have d: "GenerateBlockID fieldsEnv ?chd 87 =
      (?chd\<lparr>ID := NewBlockIDFromDigest (1 # replicate 31 5)\<rparr>, None)"
    using h(2) by (simp add: fieldsEnv_def fieldsEncoding_def)
  from a b d c show ?thesis by blast
qed

text \<open>
  C1. For a block of version at least Protobuf whose header encodes to \<open>hb\<close>:
  \<open>VerifySignature\<close> returns false when the block signature does not verify against
  \<open>hb\<close> under the generator key, whatever the challenged header is; it returns true
  when that check passes and there is no challenged header; and with a challenged header
  it returns true exactly when both that check and the check of the original header's
  signature, against the original header's own encoding and generator key, pass.
\<close>

theorem C1_VerifySignature_protobuf:
  assumes "Version b \<ge> ProtobufBlockVersion"
    and "MarshalHeaderToProtobufWithoutSignature env b s = Inr hb"
  shows "(\<not> crypto_Verify env (GeneratorPublicKey b) (BlockSignature b) hb \<longrightarrow>
            VerifySignature env b s = (False, None))
    \<and> (crypto_Verify env (GeneratorPublicKey b) (BlockSignature b) hb \<and> ChallengedHeader b = None \<longrightarrow>
            VerifySignature env b s = (True, None))
    \<and> (\<forall>ch ob. ChallengedHeader b = Some ch \<and>
          MarshalHeaderToProtobufWithoutSignature env (fst (origHeader b)) s = Inr ob \<longrightarrow>
            VerifySignature env b s =
              (crypto_Verify env (GeneratorPublicKey b) (BlockSignature b) hb \<and>
               crypto_Verify env (chGeneratorPublicKey ch) (chBlockSignature ch) ob, None))
    \<and> (\<forall>ch e. ChallengedHeader b = Some ch \<and>
          crypto_Verify env (GeneratorPublicKey b) (BlockSignature b) hb \<and>
          MarshalHeaderToProtobufWithoutSignature env (fst (origHeader b)) s = Inl e \<longrightarrow>
            fst (VerifySignature env b s) = False)"
  using assms
  by (auto simp: VerifySignature_def origHeader_def Let_def split: option.splits sum.splits)

theorem C1_VerifySignature_protobuf_witness:
  "VerifySignature toyEnv
     ((sampleBlock 5 [] (replicate 32 1) (replicate 64 1))
        \<lparr>ChallengedHeader := Some (sampleChallenged (replicate 32 4) (replicate 64 4))\<rparr>) 87
     = (True, None)
   \<and> VerifySignature toyEnv
     ((sampleBlock 5 [] (replicate 32 1) (replicate 64 1))
        \<lparr>ChallengedHeader := Some (sampleChallenged (replicate 32 4) (replicate 64 5))\<rparr>) 87
     = (False, None)
   \<and> VerifySignature toyEnv (sampleBlock 5 [] (replicate 32 1) (replicate 64 1)) 87 = (True, None)
   \<and> VerifySignature toyEnv (sampleBlock 5 [] (replicate 32 1) (replicate 64 2)) 87 = (False, None)"
proof -
  let ?b = "sampleBlock 5 [] (replicate 32 1) (replicate 64 1)"
  let ?good = "?b\<lparr>ChallengedHeader := Some (sampleChallenged (replicate 32 4) (replicate 64 4))\<rparr>"
  let ?bad = "?b\<lparr>ChallengedHeader := Some (sampleChallenged (replicate 32 4) (replicate 64 5))\<rparr>"
  let ?forged = "sampleBlock 5 [] (replicate 32 1) (replicate 64 2)"
  have ver: "crypto_Verify toyEnv (replicate 32 1) (replicate 64 1) (replicate 32 1)"
    "crypto_Verify toyEnv (replicate 32 4) (replicate 64 4) (replicate 32 4)"
    "\<not> crypto_Verify toyEnv (replicate 32 4) (replicate 64 5) (replicate 32 4)"
    "\<not> crypto_Verify toyEnv (replicate 32 1) (replicate 64 2) (replicate 32 1)"
    by (simp_all add: toyEnv_def replicate_add [symmetric])
  have v: "Version ?b \<ge> ProtobufBlockVersion" "Version ?good \<ge> ProtobufBlockVersion"
    "Version ?bad \<ge> ProtobufBlockVersion" "Version ?forged \<ge> ProtobufBlockVersion"
    by (simp_all add: sampleBlock_def ProtobufBlockVersion_def)
  have m: "MarshalHeaderToProtobufWithoutSignature toyEnv ?b 87 = Inr (replicate 32 1)"
    "MarshalHeaderToProtobufWithoutSignature toyEnv ?good 87 = Inr (replicate 32 1)"
    "MarshalHeaderToProtobufWithoutSignature toyEnv ?bad 87 = Inr (replicate 32 1)"
    "MarshalHeaderToProtobufWithoutSignature toyEnv ?forged 87 = Inr (replicate 32 1)"
    "MarshalHeaderToProtobufWithoutSignature toyEnv (fst (origHeader ?good)) 87 = Inr (replicate 32 4)"
    "MarshalHeaderToProtobufWithoutSignature toyEnv (fst (origHeader ?bad)) 87 = Inr (replicate 32 4)"
    by (simp_all add: MarshalHeaderToProtobufWithoutSignature_def HeaderToProtobufHeader_def
        ToProtobuf_def origHeader_def toyEnv_def sampleBlock_def sampleChallenged_def emptyBlock_def)
  have f: "GeneratorPublicKey ?b = replicate 32 1" "BlockSignature ?b = replicate 64 1"
    "ChallengedHeader ?b = None"
    "GeneratorPublicKey ?good = replicate 32 1" "BlockSignature ?good = replicate 64 1"
    "ChallengedHeader ?good = Some (sampleChallenged (replicate 32 4) (replicate 64 4))"
    "GeneratorPublicKey ?bad = replicate 32 1" "BlockSignature ?bad = replicate 64 1"
    "ChallengedHeader ?bad = Some (sampleChallenged (replicate 32 4) (replicate 64 5))"
    "GeneratorPublicKey ?forged = replicate 32 1" "BlockSignature ?forged = replicate 64 2"
    by (simp_all add: sampleBlock_def emptyBlock_def)
  have c: "chGeneratorPublicKey (sampleChallenged pk sg) = pk"
    "chBlockSignature (sampleChallenged pk sg) = sg" for pk sg
    by (simp_all add: sampleChallenged_def)
  from C1_VerifySignature_protobuf [OF v(2) m(2)] f ver m(5) c
  have "VerifySignature toyEnv ?good 87 = (True, None)" by simp
  moreover from C1_VerifySignature_protobuf [OF v(3) m(3)] f ver m(6) c
  have "VerifySignature toyEnv ?bad 87 = (False, None)" by simp
  moreover from C1_VerifySignature_protobuf [OF v(1) m(1)] f ver
  have "VerifySignature toyEnv ?b 87 = (True, None)" by simp
  moreover from C1_VerifySignature_protobuf [OF v(4) m(4)] f ver
  have "VerifySignature toyEnv ?forged 87 = (False, None)" by simp
  ultimately show ?thesis by blast
qed




text \<open>
  C7 (as amended). Reading into an identifier whose arrays have their sizes, from any
  reader. The stream \<^emph>\<open>ends\<close> when the error of the reader is, or wraps, \<^verbatim>\<open>io.EOF\<close> or
  \<^verbatim>\<open>io.ErrUnexpectedEOF\<close>; otherwise it \<^emph>\<open>breaks\<close>. For an untyped identifier: with fewer
  than 32 bytes, a stream that ends gives \<open>ErrInvalidBlockIDDataSize\<close> joined with the I/O
  error of \<^verbatim>\<open>io.ReadFull\<close>, and a stream that breaks gives the reader's error as it is,
  without \<open>ErrInvalidBlockIDDataSize\<close>; with 32 up to 63 bytes, a stream that ends makes
  the identifier the Digest variant of the first 32 bytes, and a stream that breaks gives
  the reader's error and leaves the identifier untyped; with 64 bytes or more the
  identifier becomes the Signature variant of the first 64 bytes. For an identifier typed
  as Signature or Digest, exactly 64 or 32 bytes are read; a shorter stream that ends gives
  \<open>ErrInvalidBlockIDDataSize\<close> joined with the I/O error, a shorter stream that breaks gives
  the reader's error as it is. For a reader that reports \<^verbatim>\<open>io.EOF\<close> the I/O error is
  \<^verbatim>\<open>io.EOF\<close> when no byte was read and \<^verbatim>\<open>io.ErrUnexpectedEOF\<close> otherwise.
\<close>

theorem C7_ReadFrom:
  assumes "length (sig bid) = SignatureSize" and "length (dig bid) = DigestSize"
  shows
   "(idType bid \<noteq> SignatureID \<and> idType bid \<noteq> DigestID \<longrightarrow>
       (length (avail r) < 32 \<and> endOfStream (failure r) \<longrightarrow>
          (\<exists>bid'. ReadFrom bid r =
             (bid', int (length (avail r)),
              Some (Join ErrInvalidBlockIDDataSize (shortReadError r)))))
     \<and> (length (avail r) < 32 \<and> \<not> endOfStream (failure r) \<longrightarrow>
          (\<exists>bid'. ReadFrom bid r = (bid', int (length (avail r)), Some (failure r))))
     \<and> (length (avail r) = 32 \<and> endOfStream (failure r) \<longrightarrow>
          ReadFrom bid r = (bid\<lparr>dig := avail r, idType := DigestID\<rparr>, 32, None))
     \<and> (32 \<le> length (avail r) \<and> length (avail r) < 64 \<and> endOfStream (failure r) \<longrightarrow>
          (\<exists>bid'. ReadFrom bid r = (bid', int (length (avail r)), None) \<and>
                  idType bid' = DigestID \<and> Bytes bid' = take 32 (avail r)))
     \<and> (32 \<le> length (avail r) \<and> length (avail r) < 64 \<and> \<not> endOfStream (failure r) \<longrightarrow>
          (\<exists>bid'. ReadFrom bid r = (bid', int (length (avail r)), Some (failure r)) \<and>
                  idType bid' = idType bid))
     \<and> (64 \<le> length (avail r) \<longrightarrow>
          ReadFrom bid r = (NewBlockIDFromSignature (take 64 (avail r)), 64, None)))
   \<and> (idType bid = SignatureID \<longrightarrow>
        (64 \<le> length (avail r) \<longrightarrow>
           ReadFrom bid r = (bid\<lparr>sig := take 64 (avail r)\<rparr>, 64, None))
      \<and> (length (avail r) < 64 \<and> endOfStream (failure r) \<longrightarrow>
           (\<exists>bid'. ReadFrom bid r =
              (bid', int (length (avail r)),
               Some (Join ErrInvalidBlockIDDataSize (shortReadError r)))))
      \<and> (length (avail r) < 64 \<and> \<not> endOfStream (failure r) \<longrightarrow>
           (\<exists>bid'. ReadFrom bid r = (bid', int (length (avail r)), Some (failure r)))))
   \<and> (idType bid = DigestID \<longrightarrow>
        (32 \<le> length (avail r) \<longrightarrow>
           ReadFrom bid r = (bid\<lparr>dig := take 32 (avail r)\<rparr>, 32, None))
      \<and> (length (avail r) < 32 \<and> endOfStream (failure r) \<longrightarrow>
           (\<exists>bid'. ReadFrom bid r =
              (bid', int (length (avail r)),
               Some (Join ErrInvalidBlockIDDataSize (shortReadError r)))))
      \<and> (length (avail r) < 32 \<and> \<not> endOfStream (failure r) \<longrightarrow>
           (\<exists>bid'. ReadFrom bid r = (bid', int (length (avail r)), Some (failure r)))))
   \<and> (failure r = EOF \<longrightarrow>
        shortReadError r = (if avail r = [] then EOF else ErrUnexpectedEOF) \<and>
        endOfStream (failure r))"
proof (intro conjI impI)
  assume u: "idType bid \<noteq> SignatureID \<and> idType bid \<noteq> DigestID"
  let ?lr = "LimitReader r SignatureSize"
  have lr: "avail ?lr = take 64 (avail r)"
    "length (avail r) < 64 \<Longrightarrow> failure ?lr = failure r"
    "length (avail r) < 64 \<Longrightarrow> shortReadError ?lr = shortReadError r"
    by (simp_all add: LimitReader_def SignatureSize_def shortReadError_def)
  show "\<exists>bid'. ReadFrom bid r =
             (bid', int (length (avail r)),
              Some (Join ErrInvalidBlockIDDataSize (shortReadError r)))"
    if "length (avail r) < 32 \<and> endOfStream (failure r)"
    using that u assms lr
    by (simp add: ReadFrom_def readUndefinedFrom_def ReadFull_short DigestSize_def Let_def
        endOfStream_shortReadError)
  show "\<exists>bid'. ReadFrom bid r = (bid', int (length (avail r)), Some (failure r))"
    if "length (avail r) < 32 \<and> \<not> endOfStream (failure r)"
    using that u assms lr
    by (simp add: ReadFrom_def readUndefinedFrom_def ReadFull_short DigestSize_def Let_def
        endOfStream_shortReadError shortReadError_broken)
  show "ReadFrom bid r = (bid\<lparr>dig := avail r, idType := DigestID\<rparr>, 32, None)"
    if "length (avail r) = 32 \<and> endOfStream (failure r)"
    using that u assms
    by (simp add: ReadFrom_def readUndefinedFrom_def LimitReader_def ReadFull_def
        SignatureSize_def DigestSize_def Let_def endOfStream_shortReadError)
  show "\<exists>bid'. ReadFrom bid r = (bid', int (length (avail r)), None) \<and>
                  idType bid' = DigestID \<and> Bytes bid' = take 32 (avail r)"
    if "32 \<le> length (avail r) \<and> length (avail r) < 64 \<and> endOfStream (failure r)"
    using that u assms
    by (auto simp: ReadFrom_def readUndefinedFrom_def LimitReader_def ReadFull_def
        SignatureSize_def DigestSize_def Let_def Bytes_def DigestID_def SignatureID_def
        endOfStream_shortReadError)
  show "\<exists>bid'. ReadFrom bid r = (bid', int (length (avail r)), Some (failure r)) \<and>
                  idType bid' = idType bid"
    if "32 \<le> length (avail r) \<and> length (avail r) < 64 \<and> \<not> endOfStream (failure r)"
    using that u assms
    by (auto simp: ReadFrom_def readUndefinedFrom_def LimitReader_def ReadFull_def
        SignatureSize_def DigestSize_def Let_def endOfStream_shortReadError shortReadError_broken)
  show "ReadFrom bid r = (NewBlockIDFromSignature (take 64 (avail r)), 64, None)"
    if "64 \<le> length (avail r)"
    using that u assms
    by (cases bid)
       (simp add: ReadFrom_def readUndefinedFrom_def LimitReader_def ReadFull_def
          SignatureSize_def DigestSize_def Let_def NewBlockIDFromSignature_def go_copy_def
          take_halves)
next
  assume t: "idType bid = SignatureID"
  show "ReadFrom bid r = (bid\<lparr>sig := take 64 (avail r)\<rparr>, 64, None)"
    if "64 \<le> length (avail r)"
    using that t assms
    by (simp add: ReadFrom_def readSignatureFrom_def ReadFull_def SignatureSize_def)
  show "\<exists>bid'. ReadFrom bid r =
              (bid', int (length (avail r)),
               Some (Join ErrInvalidBlockIDDataSize (shortReadError r)))"
    if "length (avail r) < 64 \<and> endOfStream (failure r)"
    using that t assms
    by (simp add: ReadFrom_def readSignatureFrom_def ReadFull_def SignatureSize_def
        endOfStream_shortReadError)
  show "\<exists>bid'. ReadFrom bid r = (bid', int (length (avail r)), Some (failure r))"
    if "length (avail r) < 64 \<and> \<not> endOfStream (failure r)"
    using that t assms
    by (simp add: ReadFrom_def readSignatureFrom_def ReadFull_def SignatureSize_def
        endOfStream_shortReadError shortReadError_broken)
next
  assume t: "idType bid = DigestID"
  show "ReadFrom bid r = (bid\<lparr>dig := take 32 (avail r)\<rparr>, 32, None)"
    if "32 \<le> length (avail r)"
    using that t assms
    by (simp add: ReadFrom_def readDigestFrom_def ReadFull_def DigestSize_def
        DigestID_def SignatureID_def)
  show "\<exists>bid'. ReadFrom bid r =
              (bid', int (length (avail r)),
               Some (Join ErrInvalidBlockIDDataSize (shortReadError r)))"
    if "length (avail r) < 32 \<and> endOfStream (failure r)"
    using that t assms
    by (simp add: ReadFrom_def readDigestFrom_def ReadFull_def DigestSize_def
        DigestID_def SignatureID_def endOfStream_shortReadError)
  show "\<exists>bid'. ReadFrom bid r = (bid', int (length (avail r)), Some (failure r))"
    if "length (avail r) < 32 \<and> \<not> endOfStream (failure r)"
    using that t assms
    by (simp add: ReadFrom_def readDigestFrom_def ReadFull_def DigestSize_def
        DigestID_def SignatureID_def endOfStream_shortReadError shortReadError_broken)
next
  assume "failure r = EOF"
  then show "shortReadError r = (if avail r = [] then EOF else ErrUnexpectedEOF)"
    and "endOfStream (failure r)"
    by (simp_all add: shortReadError_def endOfStream_simps)
qed

theorem C7_ReadFrom_witness:
  "ReadFrom emptyBlockID \<lparr>avail = replicate 32 7, failure = EOF\<rparr> =
     (NewBlockIDFromDigest (replicate 32 7), 32, None)
   \<and> ReadFrom emptyBlockID \<lparr>avail = replicate 70 7, failure = EOF\<rparr> =
     (NewBlockIDFromSignature (replicate 64 7), 64, None)
   \<and> snd (ReadFrom emptyBlockID \<lparr>avail = [1, 2, 3], failure = EOF\<rparr>) =
     (3, Some (Join ErrInvalidBlockIDDataSize ErrUnexpectedEOF))
   \<and> snd (ReadFrom emptyBlockID \<lparr>avail = [], failure = EOF\<rparr>) =
     (0, Some (Join ErrInvalidBlockIDDataSize EOF))
   \<and> snd (ReadFrom (NewBlockIDFromSignature zeroSignature) \<lparr>avail = replicate 32 7, failure = EOF\<rparr>) =
     (32, Some (Join ErrInvalidBlockIDDataSize ErrUnexpectedEOF))
   \<and> snd (ReadFrom (NewBlockIDFromSignature zeroSignature)
          \<lparr>avail = replicate 32 7, failure = ErrExternal 5\<rparr>) =
     (32, Some (ErrExternal 5))"
proof -
  let ?r32 = "\<lparr>avail = replicate 32 7, failure = EOF\<rparr>"
  let ?r70 = "\<lparr>avail = replicate 70 7, failure = EOF\<rparr>"
  let ?r3 = "\<lparr>avail = [1, 2, 3], failure = EOF\<rparr>"
  let ?r0 = "\<lparr>avail = [], failure = EOF\<rparr>"
  let ?x32 = "\<lparr>avail = replicate 32 7, failure = ErrExternal 5\<rparr>"
  let ?s = "NewBlockIDFromSignature zeroSignature"
  have e: "length (sig emptyBlockID) = SignatureSize" "length (dig emptyBlockID) = DigestSize"
    "idType emptyBlockID \<noteq> SignatureID \<and> idType emptyBlockID \<noteq> DigestID"
    by (simp_all add: emptyBlockID_def zeroSignature_def zeroDigest_def SignatureID_def DigestID_def)
  have t: "length (sig ?s) = SignatureSize" "length (dig ?s) = DigestSize"
    "idType ?s = SignatureID"
    by (simp_all add: NewBlockIDFromSignature_def zeroSignature_def zeroDigest_def)
  have f: "length (avail ?r32) = 32 \<and> endOfStream (failure ?r32)"
    "64 \<le> length (avail ?r70)"
    "length (avail ?r3) < 32 \<and> endOfStream (failure ?r3)"
    "length (avail ?r0) < 32 \<and> endOfStream (failure ?r0)"
    "length (avail ?r32) < 64 \<and> endOfStream (failure ?r32)"
    "length (avail ?x32) < 64 \<and> \<not> endOfStream (failure ?x32)"
    by (simp_all add: endOfStream_def)
  have sr: "shortReadError ?r3 = ErrUnexpectedEOF" "shortReadError ?r0 = EOF"
    "shortReadError ?r32 = ErrUnexpectedEOF"
    by (simp_all add: shortReadError_def)
  from C7_ReadFrom [OF e(1) e(2), of ?r32] e(3) f(1)
  have "ReadFrom emptyBlockID ?r32 = (emptyBlockID\<lparr>dig := avail ?r32, idType := DigestID\<rparr>, 32, None)"
    by blast
  then have a: "ReadFrom emptyBlockID ?r32 = (NewBlockIDFromDigest (replicate 32 7), 32, None)"
    by (simp add: emptyBlockID_def NewBlockIDFromDigest_def)
  from C7_ReadFrom [OF e(1) e(2), of ?r70] e(3) f(2)
  have "ReadFrom emptyBlockID ?r70 = (NewBlockIDFromSignature (take 64 (avail ?r70)), 64, None)"
    by blast
  then have b: "ReadFrom emptyBlockID ?r70 = (NewBlockIDFromSignature (replicate 64 7), 64, None)"
    by simp
  from C7_ReadFrom [OF e(1) e(2), of ?r3] e(3) f(3)
  have "\<exists>bid'. ReadFrom emptyBlockID ?r3 =
      (bid', int (length (avail ?r3)), Some (Join ErrInvalidBlockIDDataSize (shortReadError ?r3)))"
    by blast
  then have c: "snd (ReadFrom emptyBlockID ?r3) =
      (3, Some (Join ErrInvalidBlockIDDataSize ErrUnexpectedEOF))"
    unfolding sr by auto
  from C7_ReadFrom [OF e(1) e(2), of ?r0] e(3) f(4)
  have "\<exists>bid'. ReadFrom emptyBlockID ?r0 =
      (bid', int (length (avail ?r0)), Some (Join ErrInvalidBlockIDDataSize (shortReadError ?r0)))"
    by blast
  then have c0: "snd (ReadFrom emptyBlockID ?r0) = (0, Some (Join ErrInvalidBlockIDDataSize EOF))"
    unfolding sr by auto
  from C7_ReadFrom [OF t(1) t(2), of ?r32] t(3) f(5)
  have "\<exists>bid'. ReadFrom ?s ?r32 =
      (bid', int (length (avail ?r32)), Some (Join ErrInvalidBlockIDDataSize (shortReadError ?r32)))"
    by blast
  then have d: "snd (ReadFrom ?s ?r32) = (32, Some (Join ErrInvalidBlockIDDataSize ErrUnexpectedEOF))"
    unfolding sr by auto
  from C7_ReadFrom [OF t(1) t(2), of ?x32] t(3) f(6)
  have "\<exists>bid'. ReadFrom ?s ?x32 = (bid', int (length (avail ?x32)), Some (failure ?x32))"
    by blast
  then have x: "snd (ReadFrom ?s ?x32) = (32, Some (ErrExternal 5))"
    by auto
  from a b c c0 d x show ?thesis by blast
qed

text \<open>
  The claim fails for a reader that breaks: with three bytes available and a reader whose
  error is not the end of the stream, an untyped identifier gets that error as it is; it is
  not \<open>ErrInvalidBlockIDDataSize\<close> composed with anything.
\<close>

theorem C7_ReadFrom_counterexample:
  "snd (ReadFrom emptyBlockID \<lparr>avail = [1, 2, 3], failure = ErrExternal 0\<rparr>) =
     (3, Some (ErrExternal 0))
   \<and> \<not> errors_Is (ErrExternal 0) ErrInvalidBlockIDDataSize
   \<and> ErrExternal 0 \<noteq> Join ErrInvalidBlockIDDataSize (ErrExternal 0)"
  by (simp add: ReadFrom_def readUndefinedFrom_def LimitReader_def ReadFull_def
      shortReadError_def endOfStream_def emptyBlockID_def zeroDigest_def zeroSignature_def
      SignatureSize_def DigestSize_def SignatureID_def DigestID_def Let_def)




text \<open>
  C8. On every input slice, whatever its length and capacity, \<open>UnmarshalBinary\<close> and
  \<open>UnmarshalHeaderFromBinary\<close> return, with a block or header and an error or \<^verbatim>\<open>nil\<close>;
  when the body panics, the error returned is "invalid data size". In particular an empty
  input, and every input whose capacity is below the fixed 121-byte prefix and whose
  version byte is below Protobuf, makes the body panic at an index or slice expression and
  gives that error.
\<close>

theorem C8_decoders_recover:
  "(\<exists>b' err. UnmarshalBinary env b data s = (b', Returns err))
   \<and> (\<exists>h' err. UnmarshalHeaderFromBinary env h data s = (h', Returns err))
   \<and> (snd (UnmarshalBinary_body env b data s) = Panics \<longrightarrow>
        snd (UnmarshalBinary env b data s) = Returns (Some (ErrorNew ''invalid data size'')))
   \<and> (snd (UnmarshalHeaderFromBinary_body env h data s) = Panics \<longrightarrow>
        snd (UnmarshalHeaderFromBinary env h data s) =
          Returns (Some (ErrorNew ''invalid data size'')))
   \<and> (contents data = [] \<or> (go_cap data < 121 \<and> hd (contents data) < ProtobufBlockVersion) \<longrightarrow>
        snd (UnmarshalBinary_body env b data s) = Panics
      \<and> snd (UnmarshalHeaderFromBinary_body env h data s) = Panics
      \<and> snd (UnmarshalBinary env b data s) = Returns (Some (ErrorNew ''invalid data size''))
      \<and> snd (UnmarshalHeaderFromBinary env h data s) =
          Returns (Some (ErrorNew ''invalid data size'')))"
proof (intro conjI impI)
  show "\<exists>b' err. UnmarshalBinary env b data s = (b', Returns err)"
    unfolding UnmarshalBinary_def by (rule recovered_never_panics)
  show "\<exists>h' err. UnmarshalHeaderFromBinary env h data s = (h', Returns err)"
    unfolding UnmarshalHeaderFromBinary_def by (rule recovered_never_panics)
  show "snd (UnmarshalBinary env b data s) = Returns (Some (ErrorNew ''invalid data size''))"
    if "snd (UnmarshalBinary_body env b data s) = Panics"
    unfolding UnmarshalBinary_def using that by (rule recovered_panic)
  show "snd (UnmarshalHeaderFromBinary env h data s) = Returns (Some (ErrorNew ''invalid data size''))"
    if "snd (UnmarshalHeaderFromBinary_body env h data s) = Panics"
    unfolding UnmarshalHeaderFromBinary_def using that by (rule recovered_panic)
next
  assume a: "contents data = [] \<or> (go_cap data < 121 \<and> hd (contents data) < ProtobufBlockVersion)"
  have p: "snd (unmarshalPrefix data x k) = Panics" for x :: "'x BlockHeader_scheme" and k
  proof (cases "contents data = []")
    case True
    then show ?thesis by (rule unmarshalPrefix_empty)
  next
    case False
    with a have "go_cap data < 121" and "contents data = [] \<or> hd (contents data) < ProtobufBlockVersion"
      by simp_all
    then show ?thesis by (rule unmarshalPrefix_short)
  qed
  show pb: "snd (UnmarshalBinary_body env b data s) = Panics"
    unfolding UnmarshalBinary_body_def by (rule p)
  show ph: "snd (UnmarshalHeaderFromBinary_body env h data s) = Panics"
    unfolding UnmarshalHeaderFromBinary_body_def by (rule p)
  show "snd (UnmarshalBinary env b data s) = Returns (Some (ErrorNew ''invalid data size''))"
    unfolding UnmarshalBinary_def using pb by (rule recovered_panic)
  show "snd (UnmarshalHeaderFromBinary env h data s) = Returns (Some (ErrorNew ''invalid data size''))"
    unfolding UnmarshalHeaderFromBinary_def using ph by (rule recovered_panic)
qed

theorem C8_decoders_recover_witness:
  "UnmarshalBinary toyEnv emptyBlock \<lparr>contents = [], spare = replicate 200 0\<rparr> 87 =
     (emptyBlock, Returns (Some (ErrorNew ''invalid data size'')))
   \<and> snd (UnmarshalBinary toyEnv emptyBlock \<lparr>contents = [2, 0, 0, 0, 1], spare = [0, 0, 0]\<rparr> 87) =
     Returns (Some (ErrorNew ''invalid data size''))
   \<and> snd (UnmarshalHeaderFromBinary toyEnv emptyBlock
          \<lparr>contents = [2, 0, 0, 0, 1], spare = [0, 0, 0]\<rparr> 87) =
     Returns (Some (ErrorNew ''invalid data size''))"
proof -
  let ?e = "\<lparr>contents = [], spare = replicate 200 0\<rparr> :: ByteSlice"
  let ?d = "\<lparr>contents = [2, 0, 0, 0, 1], spare = [0, 0, 0]\<rparr> :: ByteSlice"
  have a: "contents ?e = [] \<or> (go_cap ?e < 121 \<and> hd (contents ?e) < ProtobufBlockVersion)"
    by simp
  have b: "contents ?d = [] \<or> (go_cap ?d < 121 \<and> hd (contents ?d) < ProtobufBlockVersion)"
    by (simp add: ProtobufBlockVersion_def go_cap_def)
  from C8_decoders_recover [of toyEnv emptyBlock ?e 87 emptyBlock] a
  have "snd (UnmarshalBinary toyEnv emptyBlock ?e 87) = Returns (Some (ErrorNew ''invalid data size''))"
    by blast
  moreover have "fst (UnmarshalBinary toyEnv emptyBlock ?e 87) = emptyBlock"
    by (simp add: UnmarshalBinary_def UnmarshalBinary_body_def unmarshalPrefix_def go_index_def
        recovered_def)
  ultimately have c: "UnmarshalBinary toyEnv emptyBlock ?e 87 =
     (emptyBlock, Returns (Some (ErrorNew ''invalid data size'')))"
    by (metis prod.collapse)
  from C8_decoders_recover [of toyEnv emptyBlock ?d 87 emptyBlock] b
  have "snd (UnmarshalBinary toyEnv emptyBlock ?d 87) =
     Returns (Some (ErrorNew ''invalid data size''))
   \<and> snd (UnmarshalHeaderFromBinary toyEnv emptyBlock ?d 87) =
     Returns (Some (ErrorNew ''invalid data size''))"
    by blast
  with c show ?thesis by blast
qed



end
